theory Spec2Isabelle
  imports Complex_Main
begin

section \<open>The base robot-arm controller (robosuite/controllers/base_controller.py)\<close>

text \<open>
  A shallow embedding of the class \<^verbatim>\<open>Controller\<close>. Python floats and the entries of numpy
  arrays are exact reals; where numpy would produce \<^verbatim>\<open>inf\<close> or \<^verbatim>\<open>nan\<close> the model
  stops with \<open>NonFinite\<close>, since no real number stands for them. A Python exception is the
  \<open>Inl\<close> branch of a sum; the state an exception leaves behind is not modelled.
\<close>

subsection \<open>Errors and numpy arithmetic on one-dimensional arrays\<close>

datatype error =
    TypeError | ValueError | IndexError | KeyError | ZeroDivisionError
  | AttributeError | UnboundLocalError | NonFinite

type_synonym vec = "real list"
type_synonym mat = "real list list"
type_synonym vec3 = "real \<times> real \<times> real"

definition bindE :: "error + 'a \<Rightarrow> ('a \<Rightarrow> error + 'b) \<Rightarrow> error + 'b" where
  "bindE m f = (case m of Inl e \<Rightarrow> Inl e | Inr x \<Rightarrow> f x)"

text \<open>
  An element-wise binary operation with numpy's broadcasting of one-dimensional arrays:
  equal lengths pair up, an array of length 1 is stretched, anything else is the
  \<^verbatim>\<open>ValueError\<close> "operands could not be broadcast together".
\<close>

definition np_binop :: "(real \<Rightarrow> real \<Rightarrow> real) \<Rightarrow> vec \<Rightarrow> vec \<Rightarrow> error + vec" where
  "np_binop f xs ys =
     (if length xs = length ys then Inr (map2 f xs ys)
      else if length xs = 1 then Inr (map (f (xs ! 0)) ys)
      else if length ys = 1 then Inr (map (\<lambda>x. f x (ys ! 0)) xs)
      else Inl ValueError)"

definition np_add :: "vec \<Rightarrow> vec \<Rightarrow> error + vec" where
  "np_add = np_binop (+)"

definition np_sub :: "vec \<Rightarrow> vec \<Rightarrow> error + vec" where
  "np_sub = np_binop (-)"

definition np_mul :: "vec \<Rightarrow> vec \<Rightarrow> error + vec" where
  "np_mul = np_binop (*)"

text \<open>Array division: a zero divisor gives \<^verbatim>\<open>inf\<close> or \<^verbatim>\<open>nan\<close> in numpy (a warning, no exception).\<close>

definition np_div :: "vec \<Rightarrow> vec \<Rightarrow> error + vec" where
  "np_div xs ys = (if 0 \<in> set ys then Inl NonFinite else np_binop (/) xs ys)"

text \<open>\<^verbatim>\<open>np.clip(a, lo, hi)\<close> is \<^verbatim>\<open>minimum(maximum(a, lo), hi)\<close>, also when \<^verbatim>\<open>lo > hi\<close>.\<close>

definition np_clip :: "vec \<Rightarrow> vec \<Rightarrow> vec \<Rightarrow> error + vec" where
  "np_clip a lo hi = bindE (np_binop max a lo) (\<lambda>m. np_binop min m hi)"

subsection \<open>nums2array\<close>

text \<open>
  The argument \<^verbatim>\<open>nums\<close> of \<^verbatim>\<open>nums2array\<close>: a string, a single number, or an iterable of
  numbers (a list, a tuple or an array).
\<close>

datatype nums = Str string | Num real | Iter "real list"

text \<open>
  \<^verbatim>\<open>np.ones(dim) * nums\<close>: \<^verbatim>\<open>np.ones\<close> raises \<^verbatim>\<open>ValueError\<close> on a negative dimension.
\<close>

definition np_ones :: "int \<Rightarrow> error + vec" where
  "np_ones n = (if n < 0 then Inl ValueError else Inr (replicate (nat n) 1))"

definition nums2array :: "nums \<Rightarrow> int \<Rightarrow> error + vec" where
  "nums2array ns dimn =
     (case ns of
        Str s \<Rightarrow> Inl TypeError
      | Iter xs \<Rightarrow> Inr xs
      | Num x \<Rightarrow> bindE (np_ones dimn) (\<lambda>ones. Inr (map (\<lambda>one. one * x) ones)))"

subsection \<open>The simulation backend and the controller state\<close>

text \<open>
  What the controller reads from the MuJoCo simulation \<^verbatim>\<open>self.sim\<close>. Arrays indexed by a
  site id are functions of the id; \<^verbatim>\<open>get_site_jacp\<close> and \<^verbatim>\<open>get_site_jacr\<close> give the flat
  Jacobian of a named site; \<open>fullM\<close> is the dense inertia matrix that
  \<^verbatim>\<open>mujoco_py.cymj._mj_fullM\<close> writes into its buffer, entry by entry.
\<close>

record sim =
  data_time :: real
  site_name2id :: "string \<Rightarrow> nat option"
  site_xpos :: "nat \<Rightarrow> vec3"
  site_xmat :: "nat \<Rightarrow> vec"
  site_xvelp :: "nat \<Rightarrow> vec3"
  site_xvelr :: "nat \<Rightarrow> vec3"
  qpos :: vec
  qvel :: vec
  get_site_jacp :: "string \<Rightarrow> vec"
  get_site_jacr :: "string \<Rightarrow> vec"
  fullM :: "nat \<Rightarrow> real"
  qfrc_bias :: vec

text \<open>One evaluated trajectory point: position, orientation, velocity, angular velocity.\<close>

type_synonym point = "vec3 \<times> vec3 \<times> vec3 \<times> vec3"

text \<open>The attributes that \<^verbatim>\<open>built_min_jerk_traj\<close> sets on every call.\<close>

record segment =
  final_orientation :: mat
  initial_orientation :: mat
  X_init :: real
  Y_init :: real
  Z_init :: real
  X_final :: real
  Y_final :: real
  Z_final :: real
  t_finial :: real
  t_bias :: real

text \<open>
  The controller object. The attributes \<^verbatim>\<open>input_min\<close>, \<^verbatim>\<open>input_max\<close>, \<^verbatim>\<open>output_min\<close>,
  \<^verbatim>\<open>output_max\<close> and \<^verbatim>\<open>method\<close> (here \<open>method_tag\<close>) are set by the concrete controller
  classes and are taken as present. An attribute that is \<^verbatim>\<open>None\<close> or not yet assigned is \<open>None\<close>.
  \<open>backend\<close> is \<^verbatim>\<open>self.sim\<close>. The bounds, the actions and the torques are one-dimensional
  arrays. Attributes that none of the methods below reads (the initial pose, the joint
  dimension, the time step) are left out.
\<close>

record controller =
  actuator_min :: vec
  actuator_max :: vec
  action_scale :: "vec option"
  action_input_transform :: "vec option"
  action_output_transform :: "vec option"
  output_min :: vec
  output_max :: vec
  input_min :: vec
  input_max :: vec
  backend :: sim
  eef_name :: string
  qpos_index :: "nat list"
  qvel_index :: "nat list"
  ee_pos :: "vec3 option"
  ee_ori_mat :: "mat option"
  ee_pos_vel :: "vec3 option"
  ee_ori_vel :: "vec3 option"
  joint_pos :: "vec option"
  joint_vel :: "vec option"
  J_pos :: "mat option"
  J_ori :: "mat option"
  J_full :: "mat option"
  mass_matrix :: "mat option"
  new_update :: bool
  desired_vec_fin :: "point list"
  switch :: int
  method_tag :: string
  traj :: "segment option"
  fin_orientation :: "vec3 option"
  init_orientation :: "vec3 option"

subsection \<open>scale_action and clip_torques\<close>

text \<open>The first three statements of \<^verbatim>\<open>scale_action\<close>: the one-time cache of scale and offsets.\<close>

definition cache_action_scale :: "controller \<Rightarrow> error + controller" where
  "cache_action_scale c =
     (if action_scale c = None then
        bindE (np_sub (output_max c) (output_min c)) (\<lambda>d_out.
        bindE (np_sub (input_max c) (input_min c)) (\<lambda>d_in.
        bindE (np_div (map abs d_out) (map abs d_in)) (\<lambda>sc.
        bindE (np_add (output_max c) (output_min c)) (\<lambda>s_out.
        bindE (np_add (input_max c) (input_min c)) (\<lambda>s_in.
        Inr (c\<lparr>action_scale := Some sc,
               action_output_transform := Some (map (\<lambda>x. x / 2) s_out),
               action_input_transform := Some (map (\<lambda>x. x / 2) s_in)\<rparr>))))))
      else Inr c)"

definition scale_action :: "controller \<Rightarrow> vec \<Rightarrow> error + (vec \<times> controller)" where
  "scale_action c action =
     bindE (cache_action_scale c) (\<lambda>c1.
     bindE (np_clip action (input_min c1) (input_max c1)) (\<lambda>clipped.
     (case (action_input_transform c1, action_scale c1, action_output_transform c1) of
        (Some tr_in, Some sc, Some tr_out) \<Rightarrow>
          bindE (np_sub clipped tr_in) (\<lambda>centred.
          bindE (np_mul centred sc) (\<lambda>scaled.
          bindE (np_add scaled tr_out) (\<lambda>transformed_action.
          Inr (transformed_action, c1))))
      | _ \<Rightarrow> Inl TypeError)))"

definition clip_torques :: "controller \<Rightarrow> vec \<Rightarrow> error + vec" where
  "clip_torques c torques = np_clip torques (actuator_min c) (actuator_max c)"

text \<open>
  The two steps of \<^verbatim>\<open>scale_action\<close> on one entry: the clamp to \<open>[lo, hi]\<close>, and the
  affine map that subtracts the input midpoint, multiplies by the ratio of the widths
  and adds the output midpoint.
\<close>

definition clamp1 :: "real \<Rightarrow> real \<Rightarrow> real \<Rightarrow> real" where
  "clamp1 lo hi x = min (max x lo) hi"

definition affine1 :: "real \<Rightarrow> real \<Rightarrow> real \<Rightarrow> real \<Rightarrow> real \<Rightarrow> real" where
  "affine1 lo hi olo ohi x = (x - (hi + lo) / 2) * (\<bar>ohi - olo\<bar> / \<bar>hi - lo\<bar>) + (ohi + olo) / 2"

subsection \<open>The state cache: update\<close>

text \<open>
  \<^verbatim>\<open>a.reshape([r, k])\<close> of a flat array, row by row; numpy raises \<^verbatim>\<open>ValueError\<close> when the
  sizes do not match. \<open>reshape3\<close> is \<^verbatim>\<open>a.reshape((3, -1))\<close>, where numpy infers the row
  length.
\<close>

definition reshape :: "nat \<Rightarrow> nat \<Rightarrow> vec \<Rightarrow> error + mat" where
  "reshape r k xs =
     (if length xs = r * k then Inr (map (\<lambda>i. take k (drop (i * k) xs)) [0..<r])
      else Inl ValueError)"

definition reshape3 :: "vec \<Rightarrow> error + mat" where
  "reshape3 xs =
     (if length xs mod 3 = 0 then reshape 3 (length xs div 3) xs else Inl ValueError)"

text \<open>
  Indexing with a list of indices: \<^verbatim>\<open>a[idx]\<close> selects entries (rows, for a matrix) and
  \<^verbatim>\<open>m[:, idx]\<close> selects columns. The indices are MuJoCo addresses, never negative; one
  that is too large is an \<^verbatim>\<open>IndexError\<close>.
\<close>

definition take_idx :: "'a list \<Rightarrow> nat list \<Rightarrow> error + 'a list" where
  "take_idx xs idx =
     (if \<forall>i \<in> set idx. i < length xs then Inr (map (\<lambda>i. xs ! i) idx) else Inl IndexError)"

definition take_cols :: "mat \<Rightarrow> nat list \<Rightarrow> error + mat" where
  "take_cols m idx =
     (if \<forall>row \<in> set m. \<forall>i \<in> set idx. i < length row
      then Inr (map (\<lambda>row. map (\<lambda>i. row ! i) idx) m) else Inl IndexError)"

text \<open>\<^verbatim>\<open>self.sim.model.site_name2id(self.eef_name)\<close>; mujoco_py raises \<^verbatim>\<open>ValueError\<close> on an unknown name.\<close>

definition eef_site_id :: "sim \<Rightarrow> string \<Rightarrow> error + nat" where
  "eef_site_id s name = (case site_name2id s name of None \<Rightarrow> Inl ValueError | Some i \<Rightarrow> Inr i)"

text \<open>
  The mass matrix: a buffer of \<^verbatim>\<open>len(qvel) ** 2\<close> entries, filled by \<^verbatim>\<open>_mj_fullM\<close>,
  reshaped to a square matrix and cut down to the controlled joints.
\<close>

definition reduced_mass_matrix :: "sim \<Rightarrow> nat list \<Rightarrow> error + mat" where
  "reduced_mass_matrix s idx =
     (let nv = length (qvel s);
          buffer = map (fullM s) [0..<nv ^ 2]
      in bindE (reshape nv nv buffer) (\<lambda>m.
         bindE (take_idx m idx) (\<lambda>rows.
         take_cols rows idx)))"

text \<open>
  \<^verbatim>\<open>update(force)\<close>. \<open>forward\<close> is the backend's \<^verbatim>\<open>sim.forward()\<close>, which recomputes the
  derived quantities of the simulation in place.
\<close>

definition update :: "(sim \<Rightarrow> sim) \<Rightarrow> bool \<Rightarrow> controller \<Rightarrow> error + controller" where
  "update forward force c =
     (if new_update c \<or> force then
        (let s = forward (backend c) in
         bindE (eef_site_id s (eef_name c)) (\<lambda>sid.
         bindE (reshape 3 3 (site_xmat s sid)) (\<lambda>ori_mat.
         bindE (take_idx (qpos s) (qpos_index c)) (\<lambda>jpos.
         bindE (take_idx (qvel s) (qvel_index c)) (\<lambda>jvel.
         bindE (bindE (reshape3 (get_site_jacp s (eef_name c)))
                  (\<lambda>j. take_cols j (qvel_index c))) (\<lambda>jp.
         bindE (bindE (reshape3 (get_site_jacr s (eef_name c)))
                  (\<lambda>j. take_cols j (qvel_index c))) (\<lambda>jr.
         bindE (reduced_mass_matrix s (qvel_index c)) (\<lambda>mm.
         Inr (c\<lparr>backend := s,
                ee_pos := Some (site_xpos s sid),
                ee_ori_mat := Some ori_mat,
                ee_pos_vel := Some (site_xvelp s sid),
                ee_ori_vel := Some (site_xvelr s sid),
                joint_pos := Some jpos,
                joint_vel := Some jvel,
                J_pos := Some jp,
                J_ori := Some jr,
                J_full := Some (jp @ jr),
                mass_matrix := Some mm,
                new_update := False\<rparr>)))))))))
      else Inr c)"

text \<open>
  A backend on which \<^verbatim>\<open>update\<close> meets no exception: the end-effector site exists and its
  matrix has nine entries, the joint indices are in range, and the two Jacobians have
  three rows of \<^verbatim>\<open>len(qvel)\<close> entries.
\<close>

definition backend_ok :: "sim \<Rightarrow> controller \<Rightarrow> bool" where
  "backend_ok s c \<longleftrightarrow>
     (\<exists>sid. site_name2id s (eef_name c) = Some sid \<and> length (site_xmat s sid) = 9) \<and>
     (\<forall>i \<in> set (qpos_index c). i < length (qpos s)) \<and>
     (\<forall>i \<in> set (qvel_index c). i < length (qvel s)) \<and>
     length (get_site_jacp s (eef_name c)) = 3 * length (qvel s) \<and>
     length (get_site_jacr s (eef_name c)) = 3 * length (qvel s)"

subsection \<open>The trajectory generator\<close>

text \<open>
  The helpers of \<^verbatim>\<open>robosuite.utils.transform_utils\<close> that the generator calls. Their code
  is not part of this file, so they are parameters of the model.
\<close>

record transform_utils =
  Rotation_Matrix_To_Vector :: "mat \<Rightarrow> mat \<Rightarrow> vec3"
  Axis2Vector :: "vec3 \<Rightarrow> real \<times> vec3"
  mat2euler :: "mat \<Rightarrow> vec3"

text \<open>The via-point dictionary: positions under the keys \<^verbatim>\<open>p0\<close>, \<^verbatim>\<open>p1\<close>, orientation matrices under \<^verbatim>\<open>o0\<close>, \<^verbatim>\<open>o1\<close>.\<close>

record via_points =
  positions :: "string \<Rightarrow> vec3 option"
  orientations :: "string \<Rightarrow> mat option"

text \<open>\<^verbatim>\<open>str(n)\<close> of a Python integer.\<close>

fun str_nat :: "nat \<Rightarrow> string" where
  "str_nat n =
     (if n < 10 then [''0123456789'' ! n]
      else str_nat (n div 10) @ [''0123456789'' ! (n mod 10)])"

declare str_nat.simps [simp del]

definition str_int :: "int \<Rightarrow> string" where
  "str_int i = (if i < 0 then CHR ''-'' # str_nat (nat (- i)) else str_nat (nat i))"

text \<open>\<^verbatim>\<open>np.round\<close> on one entry: to the nearest integer, a tie to the even neighbour.\<close>

definition np_round :: "real \<Rightarrow> real" where
  "np_round x =
     (let f = \<lfloor>x\<rfloor>; d = x - of_int f
      in if d < 1 / 2 then of_int f
         else if 1 / 2 < d then of_int (f + 1)
         else if even f then of_int f else of_int (f + 1))"

definition lookup :: "(string \<Rightarrow> 'a option) \<Rightarrow> string \<Rightarrow> error + 'a" where
  "lookup d k = (case d k of None \<Rightarrow> Inl KeyError | Some v \<Rightarrow> Inr v)"

text \<open>
  \<^verbatim>\<open>pos_in[:2] = self.desired_vec_fin[-1][0][:2]\<close> when \<^verbatim>\<open>switch == 1\<close>; the index \<^verbatim>\<open>-1\<close>
  of an empty history is an \<^verbatim>\<open>IndexError\<close>.
\<close>

definition chained_pos_in :: "controller \<Rightarrow> vec3 \<Rightarrow> error + vec3" where
  "chained_pos_in c pos_in =
     (if switch c = 1 then
        (if desired_vec_fin c = [] then Inl IndexError
         else (case (pos_in, fst (last (desired_vec_fin c))) of
                 ((x, y, z), (lx, ly, lz)) \<Rightarrow> Inr (lx, ly, z)))
      else Inr pos_in)"

definition euler_init_orientation :: "transform_utils \<Rightarrow> controller \<Rightarrow> mat \<Rightarrow> error + vec3" where
  "euler_init_orientation tu c initial_ori =
     (if switch c = 1 then
        (if desired_vec_fin c = [] then Inl IndexError
         else Inr (fst (snd (last (desired_vec_fin c)))))
      else Inr (mat2euler tu initial_ori))"

definition built_min_jerk_traj ::
  "transform_utils \<Rightarrow> real \<Rightarrow> real \<Rightarrow> via_points \<Rightarrow> controller \<Rightarrow> error + controller" where
  "built_min_jerk_traj tu t_fin t_b via_point c =
     bindE (lookup (positions via_point) (''p'' @ str_int (switch c))) (\<lambda>pos_fi.
     bindE (lookup (orientations via_point) (''o'' @ str_int (switch c))) (\<lambda>ori_fi.
     (let final_ori = map (map np_round) ori_fi in
      bindE (eef_site_id (backend c) (eef_name c)) (\<lambda>sid.
      bindE (chained_pos_in c (site_xpos (backend c) sid)) (\<lambda>pos_in.
      bindE (reshape 3 3 (site_xmat (backend c) sid)) (\<lambda>initial_ori.
      bindE (if method_tag c = ''euler''
             then bindE (euler_init_orientation tu c initial_ori) (\<lambda>e_init.
                    Inr (c\<lparr>fin_orientation := Some (mat2euler tu final_ori),
                           init_orientation := Some e_init\<rparr>))
             else Inr c) (\<lambda>c1.
      (case (pos_in, pos_fi) of
         ((xi, yi, zi), (xf, yf, zf)) \<Rightarrow>
           Inr (c1\<lparr>traj := Some \<lparr>final_orientation = final_ori,
                                  initial_orientation = initial_ori,
                                  X_init = xi, Y_init = yi, Z_init = zi,
                                  X_final = xf, Y_final = yf, Z_final = zf,
                                  t_finial = t_fin, t_bias = t_b\<rparr>\<rparr>)))))))))"

text \<open>
  The three quintic laws of \<^verbatim>\<open>built_next_desired_point\<close> for one coordinate, as the source
  writes them, with \<open>T\<close> for \<^verbatim>\<open>self.t_finial\<close>.
\<close>

definition pos_law :: "real \<Rightarrow> real \<Rightarrow> real \<Rightarrow> real \<Rightarrow> real" where
  "pos_law p_init p_final T t =
     (p_final - p_init) / (T ^ 3) * (6 * (t ^ 5) / (T ^ 2) - 15 * (t ^ 4) / T + 10 * (t ^ 3)) + p_init"

definition vel_law :: "real \<Rightarrow> real \<Rightarrow> real \<Rightarrow> real \<Rightarrow> real" where
  "vel_law p_init p_final T t =
     (p_final - p_init) / (T ^ 3) * (30 * (t ^ 4) / (T ^ 2) - 60 * (t ^ 3) / T + 30 * (t ^ 2))"

definition acc_law :: "real \<Rightarrow> real \<Rightarrow> real \<Rightarrow> real \<Rightarrow> real" where
  "acc_law p_init p_final T t =
     (p_final - p_init) / (T ^ 3) * (120 * (t ^ 3) / (T ^ 2) - 180 * (t ^ 2) / T + 60 * t)"

definition position_at :: "segment \<Rightarrow> real \<Rightarrow> vec3" where
  "position_at seg t =
     (pos_law (X_init seg) (X_final seg) (t_finial seg) t,
      pos_law (Y_init seg) (Y_final seg) (t_finial seg) t,
      pos_law (Z_init seg) (Z_final seg) (t_finial seg) t)"

definition velocity_at :: "segment \<Rightarrow> real \<Rightarrow> vec3" where
  "velocity_at seg t =
     (vel_law (X_init seg) (X_final seg) (t_finial seg) t,
      vel_law (Y_init seg) (Y_final seg) (t_finial seg) t,
      vel_law (Z_init seg) (Z_final seg) (t_finial seg) t)"

definition acceleration_at :: "segment \<Rightarrow> real \<Rightarrow> vec3" where
  "acceleration_at seg t =
     (acc_law (X_init seg) (X_final seg) (t_finial seg) t,
      acc_law (Y_init seg) (Y_final seg) (t_finial seg) t,
      acc_law (Z_init seg) (Z_final seg) (t_finial seg) t)"

text \<open>\<^verbatim>\<open>np.linalg.norm\<close> of a 3-vector and the product of a number with a 3-vector.\<close>

definition norm3 :: "vec3 \<Rightarrow> real" where
  "norm3 v = (case v of (x, y, z) \<Rightarrow> sqrt (x ^ 2 + y ^ 2 + z ^ 2))"

definition scale3 :: "real \<Rightarrow> vec3 \<Rightarrow> vec3" where
  "scale3 k v = (case v of (x, y, z) \<Rightarrow> (k * x, k * y, k * z))"

text \<open>The magnitude laws of the \<^verbatim>\<open>rotation\<close> method.\<close>

definition magnitude_traj :: "real \<Rightarrow> real \<Rightarrow> real \<Rightarrow> real" where
  "magnitude_traj magnitude T t =
     magnitude / (T ^ 3) * (6 * (t ^ 5) / (T ^ 2) - 15 * (t ^ 4) / T + 10 * (t ^ 3)) - magnitude"

definition magnitude_vel_traj :: "real \<Rightarrow> real \<Rightarrow> real \<Rightarrow> real" where
  "magnitude_vel_traj magnitude T t =
     magnitude / (T ^ 3) * (30 * (t ^ 4) / (T ^ 2) - 60 * (t ^ 3) / T + 30 * (t ^ 2))"

text \<open>The body of \<^verbatim>\<open>if self.method == 'rotation'\<close>: orientation and angular velocity.\<close>

definition rotation_branch :: "transform_utils \<Rightarrow> segment \<Rightarrow> real \<Rightarrow> vec3 \<times> vec3" where
  "rotation_branch tu seg t =
     (let Vrot = Rotation_Matrix_To_Vector tu (initial_orientation seg) (final_orientation seg);
          upper_bound = 1 / 1000000
      in if norm3 Vrot < upper_bound
         then (scale3 0 (0, 0, 0), scale3 0 (0, 0, 0))
         else (case Axis2Vector tu Vrot of
                 (magnitude, direction) \<Rightarrow>
                   (scale3 (magnitude_traj magnitude (t_finial seg) t) direction,
                    scale3 (magnitude_vel_traj magnitude (t_finial seg) t) direction)))"

text \<open>The body of \<^verbatim>\<open>if self.method == 'euler'\<close>: the position law on each Euler angle.\<close>

definition euler_branch :: "controller \<Rightarrow> segment \<Rightarrow> real \<Rightarrow> error + (vec3 \<times> vec3)" where
  "euler_branch c seg t =
     (case (fin_orientation c, init_orientation c) of
        (Some (f1, f2, f3), Some (i1, i2, i3)) \<Rightarrow>
          Inr ((pos_law i1 f1 (t_finial seg) t,
                pos_law i2 f2 (t_finial seg) t,
                pos_law i3 f3 (t_finial seg) t),
               (vel_law i1 f1 (t_finial seg) t,
                vel_law i2 f2 (t_finial seg) t,
                vel_law i3 f3 (t_finial seg) t))
      | _ \<Rightarrow> Inl AttributeError)"

text \<open>
  The two \<^verbatim>\<open>if\<close> statements on \<^verbatim>\<open>self.method\<close>, one after the other; with any other
  method the local \<^verbatim>\<open>orientation\<close> is unbound where the point is appended.
\<close>

definition orientation_at ::
  "transform_utils \<Rightarrow> controller \<Rightarrow> segment \<Rightarrow> real \<Rightarrow> error + (vec3 \<times> vec3)" where
  "orientation_at tu c seg t =
     (let r1 = (if method_tag c = ''rotation'' then Some (rotation_branch tu seg t) else None)
      in bindE (if method_tag c = ''euler''
                then bindE (euler_branch c seg t) (\<lambda>r. Inr (Some r))
                else Inr r1)
           (\<lambda>r2. case r2 of None \<Rightarrow> Inl UnboundLocalError | Some r \<Rightarrow> Inr r))"

text \<open>
  \<^verbatim>\<open>built_next_desired_point\<close>. The elapsed time \<open>t\<close> and \<^verbatim>\<open>t_finial\<close> are Python floats, so
  a zero \<^verbatim>\<open>t_finial\<close> raises \<^verbatim>\<open>ZeroDivisionError\<close> in the first statement. The local
  \<^verbatim>\<open>acceleration\<close> is computed and not returned. The point is appended to the history.
\<close>

definition built_next_desired_point ::
  "transform_utils \<Rightarrow> controller \<Rightarrow> error + (point \<times> controller)" where
  "built_next_desired_point tu c =
     (case traj c of
        None \<Rightarrow> Inl AttributeError
      | Some seg \<Rightarrow>
          (let t = data_time (backend c) - t_bias seg in
           if t_finial seg = 0 then Inl ZeroDivisionError
           else
             (let position = position_at seg t;
                  velocity = velocity_at seg t;
                  acceleration = acceleration_at seg t
              in bindE (orientation_at tu c seg t) (\<lambda>(orientation, ang_vel).
                   Inr ((position, orientation, velocity, ang_vel),
                        c\<lparr>desired_vec_fin :=
                            desired_vec_fin c @ [(position, orientation, velocity, ang_vel)]\<rparr>)))))"

subsection \<open>The blending polynomial as the specification writes it\<close>

text \<open>
  The specification states the laws through \<open>s(t) = 6(t/T)^5 - 15(t/T)^4 + 10(t/T)^3\<close>.
  \<open>spec_s\<close> is that polynomial and \<open>spec_s_deriv\<close> its derivative in \<open>t\<close>; they are
  compared with the laws of the source below.
\<close>

definition spec_s :: "real \<Rightarrow> real \<Rightarrow> real" where
  "spec_s T t = 6 * (t / T) ^ 5 - 15 * (t / T) ^ 4 + 10 * (t / T) ^ 3"

definition spec_s_deriv :: "real \<Rightarrow> real \<Rightarrow> real" where
  "spec_s_deriv T t = (30 * (t / T) ^ 4 - 60 * (t / T) ^ 3 + 30 * (t / T) ^ 2) / T"

subsection \<open>Example states\<close>

text \<open>
  A backend with one site and two joints, and a controller on it, for the concrete
  instances below. \<open>example_utils\<close> holds stand-ins for the transform helpers: the
  relative rotation vector is zero on identical matrices, and \<open>Axis2Vector\<close> splits a
  vector into its norm and the unit vector along it.
\<close>

definition example_sim :: sim where
  "example_sim =
     \<lparr>data_time = 3,
      site_name2id = (\<lambda>name. if name = ''grip_site'' then Some 0 else None),
      site_xpos = (\<lambda>i. (1, 2, 3)),
      site_xmat = (\<lambda>i. [1, 0, 0, 0, 1, 0, 0, 0, 1]),
      site_xvelp = (\<lambda>i. (0, 0, 0)),
      site_xvelr = (\<lambda>i. (0, 0, 0)),
      qpos = [1 / 2, 1 / 4],
      qvel = [0, 0],
      get_site_jacp = (\<lambda>name. [1, 0, 0, 1, 0, 0]),
      get_site_jacr = (\<lambda>name. [0, 0, 0, 0, 1, 1]),
      fullM = (\<lambda>k. if k = 0 \<or> k = 3 then 2 else 0),
      qfrc_bias = [0, 0]\<rparr>"

definition example_controller :: controller where
  "example_controller =
     \<lparr>actuator_min = [- 10, - 10],
      actuator_max = [10, 10],
      action_scale = None,
      action_input_transform = None,
      action_output_transform = None,
      output_min = [- (1 / 2), 0],
      output_max = [1 / 2, 4],
      input_min = [- 1, - 1],
      input_max = [1, 1],
      backend = example_sim,
      eef_name = ''grip_site'',
      qpos_index = [0, 1],
      qvel_index = [0, 1],
      ee_pos = None,
      ee_ori_mat = None,
      ee_pos_vel = None,
      ee_ori_vel = None,
      joint_pos = None,
      joint_vel = None,
      J_pos = None,
      J_ori = None,
      J_full = None,
      mass_matrix = None,
      new_update = True,
      desired_vec_fin = [],
      switch = 0,
      method_tag = ''rotation'',
      traj = None,
      fin_orientation = None,
      init_orientation = None\<rparr>"

definition example_utils :: transform_utils where
  "example_utils =
     \<lparr>Rotation_Matrix_To_Vector = (\<lambda>a b. if a = b then (0, 0, 0) else (1, 0, 0)),
      Axis2Vector = (\<lambda>v. (norm3 v, scale3 (1 / norm3 v) v)),
      mat2euler = (\<lambda>m. (0, 0, 0))\<rparr>"

definition example_segment :: segment where
  "example_segment =
     \<lparr>final_orientation = [[0, 1, 0], [1, 0, 0], [0, 0, - 1]],
      initial_orientation = [[1, 0, 0], [0, 1, 0], [0, 0, 1]],
      X_init = 0, Y_init = 0, Z_init = 0,
      X_final = 1, Y_final = 0, Z_final = 0,
      t_finial = 2, t_bias = 1\<rparr>"

text \<open>A via-point dictionary with two via-points, and one evaluated point of a history.\<close>

definition example_via :: via_points where
  "example_via =
     \<lparr>positions = (\<lambda>k. if k = ''p0'' then Some (1, 0, 0)
                        else if k = ''p1'' then Some (1, 1, 0) else None),
      orientations = (\<lambda>k. if k = ''o0''
                             then Some [[99 / 100, 1 / 10, 1 / 2],
                                        [- (1 / 10), 99 / 100, 3 / 2],
                                        [0, 5 / 2, 1]]
                           else if k = ''o1'' then Some [[0, 1, 0], [1, 0, 0], [0, 0, - 1]]
                           else None)\<rparr>"

definition example_point :: point where
  "example_point = ((7, 8, 9), (1 / 2, 1 / 3, 1 / 4), (0, 0, 0), (0, 0, 0))"

text \<open>A \<^verbatim>\<open>sim.forward()\<close> that moves the site and a joint, and the example controller after one update with it.\<close>

definition example_forward :: "sim \<Rightarrow> sim" where
  "example_forward s = s\<lparr>site_xpos := (\<lambda>i. (4, 5, 6)), qpos := [3 / 4, 1 / 4]\<rparr>"

definition example_updated :: controller where
  "example_updated =
     example_controller
       \<lparr>backend := example_forward example_sim,
        ee_pos := Some (4, 5, 6),
        ee_ori_mat := Some [[1, 0, 0], [0, 1, 0], [0, 0, 1]],
        ee_pos_vel := Some (0, 0, 0),
        ee_ori_vel := Some (0, 0, 0),
        joint_pos := Some [3 / 4, 1 / 4],
        joint_vel := Some [0, 0],
        J_pos := Some [[1, 0], [0, 1], [0, 0]],
        J_ori := Some [[0, 0], [0, 0], [1, 1]],
        J_full := Some [[1, 0], [0, 1], [0, 0], [0, 0], [0, 0], [1, 1]],
        mass_matrix := Some [[2, 0], [0, 2]],
        new_update := False\<rparr>"

text \<open>
  The example controller once \<^verbatim>\<open>scale_action\<close> has cached its scale and offsets, and the
  example controller with its output bounds swapped.
\<close>

definition example_scaled :: controller where
  "example_scaled =
     example_controller\<lparr>action_scale := Some [1 / 2, 2],
                        action_output_transform := Some [0, 2],
                        action_input_transform := Some [0, 0]\<rparr>"

definition example_inverted :: controller where
  "example_inverted = example_controller\<lparr>output_min := [1 / 2, 4], output_max := [- (1 / 2), 0]\<rparr>"

section \<open>Properties\<close>

subsection \<open>Basic facts\<close>

lemma bindE_Inr [simp]: "bindE (Inr x) f = f x"
  by (simp add: bindE_def)

lemma bindE_Inl [simp]: "bindE (Inl e) f = Inl e"
  by (simp add: bindE_def)

lemma bindE_eq_Inr: "bindE m f = Inr y \<longleftrightarrow> (\<exists>x. m = Inr x \<and> f x = Inr y)"
  by (cases m) simp_all

subsection \<open>The quintic laws at the ends of a segment\<close>

lemma pos_law_start: "pos_law i f T 0 = i"
  by (simp add: pos_law_def)

lemma vel_law_start: "vel_law i f T 0 = 0"
  by (simp add: vel_law_def)

lemma acc_law_start: "acc_law i f T 0 = 0"
  by (simp add: acc_law_def)

lemma pos_law_end: "T \<noteq> 0 \<Longrightarrow> pos_law i f T T = f"
  by (simp add: pos_law_def field_simps eval_nat_numeral)

lemma vel_law_end: "T \<noteq> 0 \<Longrightarrow> vel_law i f T T = 0"
  by (simp add: vel_law_def field_simps eval_nat_numeral)

lemma acc_law_end: "T \<noteq> 0 \<Longrightarrow> acc_law i f T T = 0"
  by (simp add: acc_law_def field_simps eval_nat_numeral)

lemma orientation_at_total:
  assumes "method_tag c = ''rotation'' \<or>
           (method_tag c = ''euler'' \<and> fin_orientation c \<noteq> None \<and> init_orientation c \<noteq> None)"
  shows "\<exists>r. orientation_at tu c seg t = Inr r"
proof -
  from assms consider "method_tag c = ''rotation''"
    | f i where "method_tag c = ''euler''" "fin_orientation c = Some f" "init_orientation c = Some i"
    by blast
  then show ?thesis
  proof cases
    case 1
    then have "orientation_at tu c seg t = Inr (rotation_branch tu seg t)"
      by (simp add: orientation_at_def)
    then show ?thesis by blast
  next
    case 2
    then show ?thesis
      by (cases f; cases i) (simp add: orientation_at_def euler_branch_def del: split_paired_Ex)
  qed
qed

lemma built_next_desired_point_Inr:
  assumes "traj c = Some seg" and "t_finial seg \<noteq> 0"
    and "orientation_at tu c seg (data_time (backend c) - t_bias seg) = Inr (ori, av)"
  shows "built_next_desired_point tu c =
           Inr ((position_at seg (data_time (backend c) - t_bias seg), ori,
                 velocity_at seg (data_time (backend c) - t_bias seg), av),
                c\<lparr>desired_vec_fin := desired_vec_fin c @
                    [(position_at seg (data_time (backend c) - t_bias seg), ori,
                      velocity_at seg (data_time (backend c) - t_bias seg), av)]\<rparr>)"
  using assms by (simp add: built_next_desired_point_def Let_def)

lemma built_next_desired_point_returns:
  assumes "traj c = Some seg" and "t_finial seg \<noteq> 0"
    and "method_tag c = ''rotation'' \<or>
         (method_tag c = ''euler'' \<and> fin_orientation c \<noteq> None \<and> init_orientation c \<noteq> None)"
  shows "\<exists>ori av c'. built_next_desired_point tu c =
           Inr ((position_at seg (data_time (backend c) - t_bias seg), ori,
                 velocity_at seg (data_time (backend c) - t_bias seg), av), c')"
proof -
  obtain r where "orientation_at tu c seg (data_time (backend c) - t_bias seg) = Inr r"
    using orientation_at_total [OF assms(3)] by blast
  then obtain ori av
    where "orientation_at tu c seg (data_time (backend c) - t_bias seg) = Inr (ori, av)"
    by (cases r) simp
  from built_next_desired_point_Inr [OF assms(1,2) this] show ?thesis
    by blast
qed

subsection \<open>The laws against the specification's polynomial, and off the segment\<close>

lemma spec_s_has_derivative:
  "T \<noteq> 0 \<Longrightarrow> (spec_s T has_real_derivative spec_s_deriv T t) (at t)"
  unfolding spec_s_def spec_s_deriv_def
  by (auto intro!: derivative_eq_intros simp: field_simps eval_nat_numeral)

lemma magnitude_traj_spec:
  "T \<noteq> 0 \<Longrightarrow> magnitude_traj m T t = m * spec_s T t - m"
  by (simp add: magnitude_traj_def spec_s_def field_simps eval_nat_numeral)

lemma magnitude_vel_traj_spec:
  "T \<noteq> 0 \<Longrightarrow> magnitude_vel_traj m T t = m * spec_s_deriv T t"
  by (simp add: magnitude_vel_traj_def spec_s_deriv_def field_simps eval_nat_numeral)

lemma pos_law_minus_final:
  "T \<noteq> 0 \<Longrightarrow>
     pos_law i f T t - f = (f - i) * ((t - T) ^ 3 * (6 * t ^ 2 + 3 * t * T + T ^ 2)) / T ^ 5"
  by (simp add: pos_law_def field_simps eval_nat_numeral)

lemma pos_law_minus_init:
  "T \<noteq> 0 \<Longrightarrow>
     pos_law i f T t - i = (f - i) * (t ^ 3 * (6 * t ^ 2 - 15 * t * T + 10 * T ^ 2)) / T ^ 5"
  by (simp add: pos_law_def field_simps eval_nat_numeral)

lemma vel_law_factored:
  "T \<noteq> 0 \<Longrightarrow> vel_law i f T t = (f - i) * (30 * t ^ 2 * (t - T) ^ 2) / T ^ 5"
  by (simp add: vel_law_def field_simps eval_nat_numeral)

lemma pos_law_after_end:
  assumes "0 < T" "T < t" "f \<noteq> i"
  shows "pos_law i f T t \<noteq> f"
proof -
  define P where "P = (t - T) ^ 3 * (6 * t ^ 2 + 3 * t * T + T ^ 2)"
  have "0 < P"
    unfolding P_def using assms by (intro mult_pos_pos zero_less_power add_pos_pos) simp_all
  then have "(f - i) * P / T ^ 5 \<noteq> 0"
    using assms by simp
  then have "(f - i) * ((t - T) ^ 3 * (6 * t ^ 2 + 3 * t * T + T ^ 2)) / T ^ 5 \<noteq> 0"
    unfolding P_def .
  then show ?thesis
    using pos_law_minus_final [of T i f t] assms by auto
qed

lemma vel_law_off_ends:
  assumes "T \<noteq> 0" "t \<noteq> 0" "t \<noteq> T" "f \<noteq> i"
  shows "vel_law i f T t \<noteq> 0"
  using assms by (simp add: vel_law_factored)

lemma quad_pos: "0 < 6 * t ^ 2 - 15 * t * T + 10 * T ^ 2" if "T \<noteq> 0" for t T :: real
proof -
  have "6 * t ^ 2 - 15 * t * T + 10 * T ^ 2 = 6 * (t - 5 / 4 * T) ^ 2 + 5 / 8 * T ^ 2"
    by (simp add: field_simps power2_eq_square)
  moreover have "0 < 5 / 8 * T ^ 2" using that by simp
  moreover have "0 \<le> 6 * (t - 5 / 4 * T) ^ 2" by simp
  ultimately show ?thesis by linarith
qed

lemma pos_law_before_start:
  assumes "T \<noteq> 0" "t \<noteq> 0" "f \<noteq> i"
  shows "pos_law i f T t \<noteq> i"
proof -
  have "t ^ 3 * (6 * t ^ 2 - 15 * t * T + 10 * T ^ 2) \<noteq> 0"
    using assms quad_pos [of T t] by simp
  then have "(f - i) * (t ^ 3 * (6 * t ^ 2 - 15 * t * T + 10 * T ^ 2)) / T ^ 5 \<noteq> 0"
    using assms by simp
  then show ?thesis
    using pos_law_minus_init [of T i f t] assms by auto
qed


lemma position_after_end:
  assumes "0 < t_finial seg" "t_finial seg < t"
    and "(X_final seg, Y_final seg, Z_final seg) \<noteq> (X_init seg, Y_init seg, Z_init seg)"
  shows "position_at seg t \<noteq> (X_final seg, Y_final seg, Z_final seg)"
    and "velocity_at seg t \<noteq> (0, 0, 0)"
proof -
  have T: "t_finial seg \<noteq> 0" "t \<noteq> 0" "t \<noteq> t_finial seg" using assms by simp_all
  from assms(3) consider "X_final seg \<noteq> X_init seg" | "Y_final seg \<noteq> Y_init seg"
    | "Z_final seg \<noteq> Z_init seg" by auto
  then show "position_at seg t \<noteq> (X_final seg, Y_final seg, Z_final seg)"
    using pos_law_after_end [OF assms(1,2)] by cases (simp_all add: position_at_def)
  from assms(3) consider "X_final seg \<noteq> X_init seg" | "Y_final seg \<noteq> Y_init seg"
    | "Z_final seg \<noteq> Z_init seg" by auto
  then show "velocity_at seg t \<noteq> (0, 0, 0)"
    using vel_law_off_ends [OF T] by cases (simp_all add: velocity_at_def)
qed

lemma position_before_start:
  assumes "0 < t_finial seg" "t < 0"
    and "(X_final seg, Y_final seg, Z_final seg) \<noteq> (X_init seg, Y_init seg, Z_init seg)"
  shows "position_at seg t \<noteq> (X_init seg, Y_init seg, Z_init seg)"
    and "velocity_at seg t \<noteq> (0, 0, 0)"
proof -
  have T: "t_finial seg \<noteq> 0" "t \<noteq> 0" "t \<noteq> t_finial seg" using assms by simp_all
  from assms(3) consider "X_final seg \<noteq> X_init seg" | "Y_final seg \<noteq> Y_init seg"
    | "Z_final seg \<noteq> Z_init seg" by auto
  then show "position_at seg t \<noteq> (X_init seg, Y_init seg, Z_init seg)"
    using pos_law_before_start [OF T(1,2)] by cases (simp_all add: position_at_def)
  from assms(3) consider "X_final seg \<noteq> X_init seg" | "Y_final seg \<noteq> Y_init seg"
    | "Z_final seg \<noteq> Z_init seg" by auto
  then show "velocity_at seg t \<noteq> (0, 0, 0)"
    using vel_law_off_ends [OF T] by cases (simp_all add: velocity_at_def)
qed

lemma orientation_at_rotation:
  "method_tag c = ''rotation'' \<Longrightarrow> orientation_at tu c seg t = Inr (rotation_branch tu seg t)"
  by (simp add: orientation_at_def)

lemma example_rotation_vector:
  "Rotation_Matrix_To_Vector example_utils (initial_orientation example_segment)
     (final_orientation example_segment) = (1, 0, 0)"
  by (simp add: example_utils_def example_segment_def)

lemma example_axis:
  "Axis2Vector example_utils (1, 0, 0) = (1, (1, 0, 0))"
  by (simp add: example_utils_def norm3_def scale3_def)

lemma example_rotation_branch:
  "rotation_branch example_utils example_segment t =
     ((magnitude_traj 1 2 t, 0, 0), (magnitude_vel_traj 1 2 t, 0, 0))"
  by (simp add: rotation_branch_def example_rotation_vector example_axis norm3_def scale3_def
      Let_def) (simp add: example_segment_def)

lemma rotation_branch_large:
  assumes "\<not> norm3 (Rotation_Matrix_To_Vector tu (initial_orientation seg) (final_orientation seg))
             < 1 / 1000000"
    and "Axis2Vector tu (Rotation_Matrix_To_Vector tu (initial_orientation seg)
           (final_orientation seg)) = (m, axis)"
  shows "rotation_branch tu seg t =
           (scale3 (magnitude_traj m (t_finial seg) t) axis,
            scale3 (magnitude_vel_traj m (t_finial seg) t) axis)"
  using assms by (simp add: rotation_branch_def Let_def)

lemma rotation_branch_small:
  assumes "norm3 (Rotation_Matrix_To_Vector tu (initial_orientation seg) (final_orientation seg))
             < 1 / 1000000"
  shows "rotation_branch tu seg t = ((0, 0, 0), (0, 0, 0))"
  using assms by (simp add: rotation_branch_def Let_def scale3_def)

subsection \<open>Building a segment\<close>

lemma str_int_0: "str_int 0 = ''0''"
  by (simp add: str_int_def str_nat.simps [of 0])

lemma str_int_1: "str_int 1 = ''1''"
  by (simp add: str_int_def str_nat.simps [of "Suc 0"])

lemma np_round_int: "np_round x \<in> \<int>"
  by (simp add: np_round_def Let_def)

lemma np_round_fix: "x \<in> \<int> \<Longrightarrow> np_round x = x"
  by (auto simp: np_round_def Let_def elim!: Ints_cases)

lemma np_round_eq_iff: "np_round x = x \<longleftrightarrow> x \<in> \<int>"
  using np_round_int [of x] np_round_fix [of x] by auto

lemma np_round_nearest: "\<bar>np_round x - x\<bar> \<le> 1 / 2"
proof -
  have "of_int \<lfloor>x\<rfloor> \<le> x" "x < of_int \<lfloor>x\<rfloor> + 1"
    by linarith+
  then show ?thesis
    by (auto simp: np_round_def Let_def)
qed

lemma map_eq_self: "map f xs = xs \<longleftrightarrow> (\<forall>x \<in> set xs. f x = x)"
  by (induction xs) auto

lemma round_matrix_eq_iff:
  "map (map np_round) m = m \<longleftrightarrow> (\<forall>row \<in> set m. \<forall>x \<in> set row. x \<in> \<int>)"
  by (simp add: map_eq_self np_round_eq_iff)

lemma reshape_3_3:
  "reshape 3 3 xs = Inr [take 3 xs, take 3 (drop 3 xs), take 3 (drop 6 xs)]"
  if "length xs = 9"
proof -
  have "[0..<3] = [0, 1, 2]"
    by (simp add: upt_rec)
  then show ?thesis
    using that by (simp add: reshape_def)
qed

lemma chained_pos_in_chained:
  assumes "switch c = 1" and "desired_vec_fin c \<noteq> []"
    and "fst (last (desired_vec_fin c)) = (lx, ly, lz)"
  shows "chained_pos_in c (x, y, z) = Inr (lx, ly, z)"
  using assms by (simp add: chained_pos_in_def)

lemma chained_pos_in_fresh:
  "switch c \<noteq> 1 \<Longrightarrow> chained_pos_in c pos_in = Inr pos_in"
  by (simp add: chained_pos_in_def)

lemma built_min_jerk_traj_Inr:
  assumes "positions via_point (''p'' @ str_int (switch c)) = Some (xf, yf, zf)"
    and "orientations via_point (''o'' @ str_int (switch c)) = Some ori_fi"
    and "site_name2id (backend c) (eef_name c) = Some sid"
    and "reshape 3 3 (site_xmat (backend c) sid) = Inr m"
    and "chained_pos_in c (site_xpos (backend c) sid) = Inr (xi, yi, zi)"
  shows "built_min_jerk_traj tu t_fin t_b via_point c =
     Inr ((if method_tag c = ''euler''
           then c\<lparr>fin_orientation := Some (mat2euler tu (map (map np_round) ori_fi)),
                  init_orientation :=
                    Some (if switch c = 1 then fst (snd (last (desired_vec_fin c)))
                          else mat2euler tu m)\<rparr>
           else c)
          \<lparr>traj := Some \<lparr>final_orientation = map (map np_round) ori_fi,
                         initial_orientation = m,
                         X_init = xi, Y_init = yi, Z_init = zi,
                         X_final = xf, Y_final = yf, Z_final = zf,
                         t_finial = t_fin, t_bias = t_b\<rparr>\<rparr>)"
proof -
  have "desired_vec_fin c \<noteq> []" if "switch c = 1"
    using assms(5) that by (auto simp: chained_pos_in_def split: if_splits)
  then have "euler_init_orientation tu c m =
      Inr (if switch c = 1 then fst (snd (last (desired_vec_fin c))) else mat2euler tu m)"
    by (simp add: euler_init_orientation_def)
  then show ?thesis
    using assms
    by (simp add: built_min_jerk_traj_def lookup_def eef_site_id_def Let_def)
qed

lemma example_site:
  "site_name2id (backend (example_controller\<lparr>switch := sw, method_tag := mt,
       desired_vec_fin := h\<rparr>))
     (eef_name (example_controller\<lparr>switch := sw, method_tag := mt, desired_vec_fin := h\<rparr>)) = Some 0"
  "length (site_xmat (backend (example_controller\<lparr>switch := sw, method_tag := mt,
       desired_vec_fin := h\<rparr>)) 0) = 9"
  "site_xpos (backend (example_controller\<lparr>switch := sw, method_tag := mt,
       desired_vec_fin := h\<rparr>)) 0 = (1, 2, 3)"
  by (simp_all add: example_controller_def example_sim_def)

lemma list_all2_map_self:
  "list_all2 P (map f xs) xs \<longleftrightarrow> (\<forall>x \<in> set xs. P (f x) x)"
  by (induction xs) auto

lemma np_round_examples:
  "np_round (99 / 100) = 1" "np_round (1 / 10) = 0" "np_round (- (1 / 10)) = 0"
  "np_round (1 / 2) = 0" "np_round (3 / 2) = 2" "np_round (5 / 2) = 2"
  "np_round 0 = 0" "np_round 1 = 1" "np_round (- 1) = - 1"
  by (simp_all add: np_round_def Let_def)

subsection \<open>The state cache\<close>

lemma reshape_rows:
  assumes "reshape r k xs = Inr m"
  shows "length m = r \<and> (\<forall>row \<in> set m. length row = k)"
proof -
  have len: "length xs = r * k" and m: "m = map (\<lambda>i. take k (drop (i * k) xs)) [0..<r]"
    using assms by (auto simp: reshape_def split: if_splits)
  have "length (take k (drop (i * k) xs)) = k" if "i < r" for i
  proof -
    have "Suc i * k \<le> r * k"
      using that by (intro mult_le_mono1) simp
    then have "k \<le> r * k - i * k" by simp
    then show ?thesis using len by simp
  qed
  then show ?thesis
    by (auto simp: m)
qed

lemma reshape_total: "length xs = r * k \<Longrightarrow> \<exists>m. reshape r k xs = Inr m"
  by (simp add: reshape_def)

lemma reshape3_ok:
  assumes "length xs = 3 * n"
  shows "\<exists>m. reshape3 xs = Inr m \<and> (\<forall>row \<in> set m. length row = n)"
proof -
  have "reshape3 xs = reshape 3 n xs"
    using assms by (simp add: reshape3_def)
  moreover obtain m where "reshape 3 n xs = Inr m"
    using reshape_total [of xs 3 n] assms by auto
  ultimately show ?thesis
    using reshape_rows [of 3 n xs m] by auto
qed

lemma take_cols_ok:
  assumes "\<forall>row \<in> set m. length row = n" and "\<forall>i \<in> set idx. i < n"
  shows "\<exists>m'. take_cols m idx = Inr m'"
  using assms by (simp add: take_cols_def)

lemma take_idx_ok:
  assumes "\<forall>i \<in> set idx. i < length xs"
  shows "take_idx xs idx = Inr (map (\<lambda>i. xs ! i) idx)"
  using assms by (simp add: take_idx_def)

lemma jacobian_ok:
  assumes "length xs = 3 * n" and "\<forall>i \<in> set idx. i < n"
  shows "\<exists>j. bindE (reshape3 xs) (\<lambda>j. take_cols j idx) = Inr j"
proof -
  obtain m where "reshape3 xs = Inr m" "\<forall>row \<in> set m. length row = n"
    using reshape3_ok [OF assms(1)] by blast
  then show ?thesis
    using take_cols_ok [of m n idx] assms(2) by simp
qed

lemma reduced_mass_matrix_ok:
  assumes "\<forall>i \<in> set idx. i < length (qvel s)"
  shows "\<exists>mm. reduced_mass_matrix s idx = Inr mm"
proof -
  let ?nv = "length (qvel s)"
  let ?buf = "map (fullM s) [0..<?nv ^ 2]"
  have "length ?buf = ?nv * ?nv"
    by (simp add: power2_eq_square)
  then obtain m where m: "reshape ?nv ?nv ?buf = Inr m"
    using reshape_total by blast
  then have rows: "length m = ?nv" "\<forall>row \<in> set m. length row = ?nv"
    using reshape_rows [OF m] by auto
  have sel: "take_idx m idx = Inr (map (\<lambda>i. m ! i) idx)"
    using take_idx_ok [of idx m] assms rows(1) by simp
  have "\<forall>row \<in> set (map (\<lambda>i. m ! i) idx). length row = ?nv"
    using rows assms by auto
  then obtain mm where "take_cols (map (\<lambda>i. m ! i) idx) idx = Inr mm"
    using take_cols_ok [of _ ?nv idx] assms by blast
  then show ?thesis
    using m sel by (simp add: reduced_mass_matrix_def Let_def)
qed

lemma update_skips:
  "\<not> new_update c \<Longrightarrow> update forward False c = Inr c"
  by (simp add: update_def)

lemma update_clears_flag:
  assumes "new_update c \<or> force" and "update forward force c = Inr c'"
  shows "\<not> new_update c' \<and> backend c' = forward (backend c)"
  using assms
  by (auto simp: update_def Let_def bindE_eq_Inr)

lemma update_returns:
  assumes "new_update c \<or> force" and "backend_ok (forward (backend c)) c"
  shows "\<exists>c'. update forward force c = Inr c'"
proof -
  let ?s = "forward (backend c)"
  from assms(2) obtain sid where sid: "site_name2id ?s (eef_name c) = Some sid"
    and xmat: "length (site_xmat ?s sid) = 9"
    and qp: "\<forall>i \<in> set (qpos_index c). i < length (qpos ?s)"
    and qv: "\<forall>i \<in> set (qvel_index c). i < length (qvel ?s)"
    and jp: "length (get_site_jacp ?s (eef_name c)) = 3 * length (qvel ?s)"
    and jr: "length (get_site_jacr ?s (eef_name c)) = 3 * length (qvel ?s)"
    by (auto simp: backend_ok_def)
  obtain ori where ori: "reshape 3 3 (site_xmat ?s sid) = Inr ori"
    using reshape_3_3 [OF xmat] by blast
  obtain j1 where j1: "bindE (reshape3 (get_site_jacp ?s (eef_name c)))
      (\<lambda>j. take_cols j (qvel_index c)) = Inr j1"
    using jacobian_ok [OF jp qv] by blast
  obtain j2 where j2: "bindE (reshape3 (get_site_jacr ?s (eef_name c)))
      (\<lambda>j. take_cols j (qvel_index c)) = Inr j2"
    using jacobian_ok [OF jr qv] by blast
  obtain mm where mm: "reduced_mass_matrix ?s (qvel_index c) = Inr mm"
    using reduced_mass_matrix_ok [OF qv] by blast
  show ?thesis
    using assms(1) sid ori j1 j2 mm take_idx_ok [OF qp] take_idx_ok [OF qv]
    by (simp add: update_def Let_def eef_site_id_def)
qed

lemma upt_3: "[0..<3] = [0, 1, 2]"
  by (simp add: upt_rec)

lemma example_update:
  "update example_forward force example_controller = Inr example_updated"
  by (simp add: update_def example_controller_def example_sim_def example_forward_def
      example_updated_def eef_site_id_def reshape_def reshape3_def take_idx_def take_cols_def
      reduced_mass_matrix_def Let_def upt_3 power2_eq_square upt_rec)

lemma example_backend_ok:
  "backend_ok (example_forward (backend example_controller)) example_controller"
  "backend_ok (example_forward (backend example_updated)) example_updated"
  by (simp_all add: backend_ok_def example_controller_def example_sim_def example_forward_def
      example_updated_def)

subsection \<open>Scaling and clipping\<close>

lemma np_binop_same_length:
  "length xs = length ys \<Longrightarrow> np_binop f xs ys = Inr (map2 f xs ys)"
  by (simp add: np_binop_def)

lemma map2_nth:
  "length xs = n \<Longrightarrow> length ys = n \<Longrightarrow> map2 f xs ys = map (\<lambda>i. f (xs ! i) (ys ! i)) [0..<n]"
  by (rule nth_equalityI) simp_all

lemma np_binop_nth:
  assumes "length xs = n" "length ys = n"
  shows "np_binop f xs ys = Inr (map (\<lambda>i. f (xs ! i) (ys ! i)) [0..<n])"
  using assms by (simp add: np_binop_same_length map2_nth [of xs n ys])

lemma np_clip_nth:
  assumes "length a = n" "length lo = n" "length hi = n"
  shows "np_clip a lo hi = Inr (map (\<lambda>i. clamp1 (lo ! i) (hi ! i) (a ! i)) [0..<n])"
  using assms by (simp add: np_clip_def np_binop_nth [of _ n] clamp1_def)

lemma cache_action_scale_fresh:
  assumes "action_scale c = None"
    and "length (input_min c) = n" "length (input_max c) = n"
    and "length (output_min c) = n" "length (output_max c) = n"
    and "\<forall>i<n. input_min c ! i \<noteq> input_max c ! i"
  shows "cache_action_scale c =
     Inr (c\<lparr>action_scale :=
              Some (map (\<lambda>i. \<bar>output_max c ! i - output_min c ! i\<bar> /
                              \<bar>input_max c ! i - input_min c ! i\<bar>) [0..<n]),
            action_output_transform :=
              Some (map (\<lambda>i. (output_max c ! i + output_min c ! i) / 2) [0..<n]),
            action_input_transform :=
              Some (map (\<lambda>i. (input_max c ! i + input_min c ! i) / 2) [0..<n])\<rparr>)"
proof -
  have d_out: "np_sub (output_max c) (output_min c) =
      Inr (map (\<lambda>i. output_max c ! i - output_min c ! i) [0..<n])"
    and d_in: "np_sub (input_max c) (input_min c) =
      Inr (map (\<lambda>i. input_max c ! i - input_min c ! i) [0..<n])"
    and s_out: "np_add (output_max c) (output_min c) =
      Inr (map (\<lambda>i. output_max c ! i + output_min c ! i) [0..<n])"
    and s_in: "np_add (input_max c) (input_min c) =
      Inr (map (\<lambda>i. input_max c ! i + input_min c ! i) [0..<n])"
    using assms(2-5) by (simp_all add: np_sub_def np_add_def np_binop_nth [of _ n])
  have nz: "0 \<notin> set (map (\<lambda>i. \<bar>input_max c ! i - input_min c ! i\<bar>) [0..<n])"
    using assms(6) by auto
  have "np_binop (/) (map (\<lambda>i. \<bar>output_max c ! i - output_min c ! i\<bar>) [0..<n])
      (map (\<lambda>i. \<bar>input_max c ! i - input_min c ! i\<bar>) [0..<n]) =
      Inr (map (\<lambda>i. \<bar>output_max c ! i - output_min c ! i\<bar> /
                     \<bar>input_max c ! i - input_min c ! i\<bar>) [0..<n])"
    by (subst np_binop_nth [of _ n]) auto
  with nz have sc: "np_div (map (\<lambda>i. \<bar>output_max c ! i - output_min c ! i\<bar>) [0..<n])
      (map (\<lambda>i. \<bar>input_max c ! i - input_min c ! i\<bar>) [0..<n]) =
      Inr (map (\<lambda>i. \<bar>output_max c ! i - output_min c ! i\<bar> /
                     \<bar>input_max c ! i - input_min c ! i\<bar>) [0..<n])"
    unfolding np_div_def by simp
  show ?thesis
    using assms(1) by (simp add: cache_action_scale_def d_out d_in s_out s_in sc o_def)
qed

lemma scale_action_cached_state:
  assumes "action_scale c = Some sc" "action_input_transform c = Some tr_in"
    and "action_output_transform c = Some tr_out"
    and "length a = n" "length (input_min c) = n" "length (input_max c) = n"
    and "length sc = n" "length tr_in = n" "length tr_out = n"
  shows "scale_action c a =
     Inr (map (\<lambda>i. (clamp1 (input_min c ! i) (input_max c ! i) (a ! i) - tr_in ! i) * sc ! i
                     + tr_out ! i) [0..<n], c)"
proof -
  let ?cl = "map (\<lambda>i. clamp1 (input_min c ! i) (input_max c ! i) (a ! i)) [0..<n]"
  have cache: "cache_action_scale c = Inr c"
    using assms(1) by (simp add: cache_action_scale_def)
  have clip: "np_clip a (input_min c) (input_max c) = Inr ?cl"
    using assms(4-6) by (rule np_clip_nth)
  have sub: "np_sub ?cl tr_in =
      Inr (map (\<lambda>i. clamp1 (input_min c ! i) (input_max c ! i) (a ! i) - tr_in ! i) [0..<n])"
    unfolding np_sub_def using assms(8) by (subst np_binop_nth [of _ n]) auto
  have mul: "np_mul (map (\<lambda>i. clamp1 (input_min c ! i) (input_max c ! i) (a ! i) - tr_in ! i)
        [0..<n]) sc =
      Inr (map (\<lambda>i. (clamp1 (input_min c ! i) (input_max c ! i) (a ! i) - tr_in ! i) * sc ! i)
        [0..<n])"
    unfolding np_mul_def using assms(7) by (subst np_binop_nth [of _ n]) auto
  have add: "np_add (map (\<lambda>i. (clamp1 (input_min c ! i) (input_max c ! i) (a ! i) - tr_in ! i)
        * sc ! i) [0..<n]) tr_out =
      Inr (map (\<lambda>i. (clamp1 (input_min c ! i) (input_max c ! i) (a ! i) - tr_in ! i) * sc ! i
        + tr_out ! i) [0..<n])"
    unfolding np_add_def using assms(9) by (subst np_binop_nth [of _ n]) auto
  show ?thesis
    by (simp add: scale_action_def cache clip assms(1-3) sub mul add)
qed

lemma scale_action_after_cache:
  assumes "cache_action_scale c = Inr c1"
  shows "scale_action c1 a = scale_action c a"
proof (cases "action_scale c = None")
  case False
  then show ?thesis using assms by (auto simp: cache_action_scale_def)
next
  case True
  then have "action_scale c1 \<noteq> None"
    using assms by (auto simp: cache_action_scale_def bindE_eq_Inr)
  then have "cache_action_scale c1 = Inr c1"
    by (auto simp: cache_action_scale_def)
  then show ?thesis
    using assms by (simp add: scale_action_def)
qed

lemma scale_action_fresh:
  assumes "action_scale c = None"
    and "length (input_min c) = n" "length (input_max c) = n"
    and "length (output_min c) = n" "length (output_max c) = n"
    and "\<forall>i<n. input_min c ! i \<noteq> input_max c ! i"
    and "length a = n"
    and "cache_action_scale c = Inr c1"
  shows "scale_action c a =
     Inr (map (\<lambda>i. affine1 (input_min c ! i) (input_max c ! i) (output_min c ! i)
                     (output_max c ! i) (clamp1 (input_min c ! i) (input_max c ! i) (a ! i)))
            [0..<n], c1)"
proof -
  let ?sc = "map (\<lambda>i. \<bar>output_max c ! i - output_min c ! i\<bar> /
                       \<bar>input_max c ! i - input_min c ! i\<bar>) [0..<n]"
  let ?to = "map (\<lambda>i. (output_max c ! i + output_min c ! i) / 2) [0..<n]"
  let ?ti = "map (\<lambda>i. (input_max c ! i + input_min c ! i) / 2) [0..<n]"
  have c1: "c1 = c\<lparr>action_scale := Some ?sc, action_output_transform := Some ?to,
                   action_input_transform := Some ?ti\<rparr>"
    using assms(8) cache_action_scale_fresh [OF assms(1-6)] by simp
  have "scale_action c1 a =
     Inr (map (\<lambda>i. (clamp1 (input_min c1 ! i) (input_max c1 ! i) (a ! i) - ?ti ! i) * ?sc ! i
                     + ?to ! i) [0..<n], c1)"
    by (rule scale_action_cached_state) (simp_all add: c1 assms(2-7))
  also have "map (\<lambda>i. (clamp1 (input_min c1 ! i) (input_max c1 ! i) (a ! i) - ?ti ! i) * ?sc ! i
                     + ?to ! i) [0..<n] =
      map (\<lambda>i. affine1 (input_min c ! i) (input_max c ! i) (output_min c ! i)
                     (output_max c ! i) (clamp1 (input_min c ! i) (input_max c ! i) (a ! i)))
            [0..<n]"
    by (auto simp: c1 affine1_def)
  finally show ?thesis
    using scale_action_after_cache [OF assms(8)] by simp
qed

lemma affine1_lo:
  "lo < hi \<Longrightarrow> affine1 lo hi olo ohi lo = min olo ohi"
  by (simp add: affine1_def field_simps min_def abs_if)

lemma affine1_hi:
  "lo < hi \<Longrightarrow> affine1 lo hi olo ohi hi = max olo ohi"
  by (simp add: affine1_def field_simps max_def abs_if)

lemma affine1_mid:
  "affine1 lo hi olo ohi ((lo + hi) / 2) = (olo + ohi) / 2"
  by (simp add: affine1_def add.commute)

lemma affine1_mono:
  "affine1 lo hi olo ohi x \<le> affine1 lo hi olo ohi y" if "x \<le> y"
proof -
  have "0 \<le> \<bar>ohi - olo\<bar> / \<bar>hi - lo\<bar>"
    by simp
  then have "(x - (hi + lo) / 2) * (\<bar>ohi - olo\<bar> / \<bar>hi - lo\<bar>)
      \<le> (y - (hi + lo) / 2) * (\<bar>ohi - olo\<bar> / \<bar>hi - lo\<bar>)"
    using that by (intro mult_right_mono) simp_all
  then show ?thesis
    unfolding affine1_def by simp
qed

lemma clamp1_mono: "x \<le> y \<Longrightarrow> clamp1 lo hi x \<le> clamp1 lo hi y"
  by (simp add: clamp1_def min_def max_def)

lemma clamp1_in_range: "lo \<le> x \<Longrightarrow> x \<le> hi \<Longrightarrow> clamp1 lo hi x = x"
  by (simp add: clamp1_def)

lemma clamp1_below: "lo \<le> hi \<Longrightarrow> x \<le> lo \<Longrightarrow> clamp1 lo hi x = lo"
  by (simp add: clamp1_def)

lemma clamp1_above: "lo \<le> hi \<Longrightarrow> hi \<le> x \<Longrightarrow> clamp1 lo hi x = hi"
  by (simp add: clamp1_def)

lemma clamp1_idem: "clamp1 lo hi (clamp1 lo hi x) = clamp1 lo hi x"
  by (simp add: clamp1_def min_def max_def)


lemma scale1_mid:
  assumes "lo < hi"
  shows "affine1 lo hi olo ohi (clamp1 lo hi ((lo + hi) / 2)) = (olo + ohi) / 2"
proof -
  have "clamp1 lo hi ((lo + hi) / 2) = (lo + hi) / 2"
    using assms by (intro clamp1_in_range) simp_all
  then show ?thesis
    by (simp only: affine1_mid)
qed

lemma scale_action_value:
  assumes "action_scale c = None"
    and "list_all2 (<) (input_min c) (input_max c)"
    and "length (output_min c) = length (input_min c)"
    and "length (output_max c) = length (input_min c)"
    and "length a = length (input_min c)"
  shows "\<exists>c1. cache_action_scale c = Inr c1 \<and>
           scale_action c a =
             Inr (map (\<lambda>i. affine1 (input_min c ! i) (input_max c ! i) (output_min c ! i)
                             (output_max c ! i)
                             (clamp1 (input_min c ! i) (input_max c ! i) (a ! i)))
                    [0..<length (input_min c)], c1) \<and>
           scale_action c1 a = scale_action c a"
proof -
  let ?n = "length (input_min c)"
  have len: "length (input_max c) = ?n"
    using assms(2) by (simp add: list_all2_lengthD)
  have ne: "\<forall>i<?n. input_min c ! i \<noteq> input_max c ! i"
    using assms(2) by (auto simp: list_all2_conv_all_nth)
  obtain c1 where c1: "cache_action_scale c = Inr c1"
    using cache_action_scale_fresh [OF assms(1) refl len assms(3,4) ne] by blast
  show ?thesis
    using scale_action_fresh [OF assms(1) refl len assms(3,4) ne assms(5) c1]
      scale_action_after_cache [OF c1, of a] c1 by blast
qed

lemmas np_defs =
  np_clip_def np_sub_def np_add_def np_mul_def np_div_def np_binop_def

lemma example_cache:
  "cache_action_scale example_controller = Inr example_scaled"
  by (simp add: cache_action_scale_def example_controller_def example_scaled_def np_defs)

lemma example_scale_action:
  "scale_action example_scaled [x, y] =
     Inr ([(min (max x (- 1)) 1) * (1 / 2), (min (max y (- 1)) 1) * 2 + 2], example_scaled)"
  by (simp add: scale_action_def cache_action_scale_def example_controller_def
      example_scaled_def np_defs)

lemma example_ranges:
  "action_scale example_controller = None"
  "list_all2 (<) (input_min example_controller) (input_max example_controller)"
  "length (output_min example_controller) = length (input_min example_controller)"
  "length (output_max example_controller) = length (input_min example_controller)"
  "list_all2 (\<le>) (output_min example_controller) (output_max example_controller)"
  "input_min example_controller = [- 1, - 1]" "input_max example_controller = [1, 1]"
  "output_min example_controller = [- (1 / 2), 0]" "output_max example_controller = [1 / 2, 4]"
  by (simp_all add: example_controller_def)

lemma np_clip_in_range:
  assumes "list_all2 (\<le>) lo xs" and "list_all2 (\<le>) xs hi"
  shows "np_clip xs lo hi = Inr xs"
proof -
  let ?n = "length xs"
  have len: "length lo = ?n" "length hi = ?n"
    using assms by (simp_all add: list_all2_lengthD)
  have "map (\<lambda>i. clamp1 (lo ! i) (hi ! i) (xs ! i)) [0..<?n] = xs"
    using assms len by (auto simp: list_all2_conv_all_nth clamp1_in_range intro!: nth_equalityI)
  then show ?thesis
    using np_clip_nth [OF refl len] by simp
qed

lemma scale_action_state:
  assumes "scale_action c a = Inr (y, c')"
  shows "cache_action_scale c = Inr c'"
  using assms
  by (auto simp: scale_action_def bindE_eq_Inr split: option.splits)

lemma cache_action_scale_frame:
  assumes "cache_action_scale c = Inr c'"
  shows "c' = c\<lparr>action_scale := action_scale c',
                action_output_transform := action_output_transform c',
                action_input_transform := action_input_transform c'\<rparr>"
    and "action_scale c \<noteq> None \<Longrightarrow> c' = c"
  using assms
  by (auto simp: cache_action_scale_def bindE_eq_Inr split: if_splits)

subsection \<open>Claims\<close>

text \<open>
  C1. For every segment with duration \<open>T > 0\<close> (and an orientation method under which
  the call returns), \<open>built_next_desired_point\<close> returns, at elapsed time \<open>0\<close>, the initial
  position and zero velocity, and its local acceleration is zero; at elapsed time \<open>T\<close>
  it returns the final position and zero velocity, and its local acceleration is zero.
  Numbers are exact reals.
\<close>

theorem C1_boundary_conditions:
  assumes "traj c = Some seg" and "0 < t_finial seg"
    and "method_tag c = ''rotation'' \<or>
         (method_tag c = ''euler'' \<and> fin_orientation c \<noteq> None \<and> init_orientation c \<noteq> None)"
  shows "(data_time (backend c) - t_bias seg = 0 \<longrightarrow>
            (\<exists>ori av c'. built_next_desired_point tu c =
               Inr (((X_init seg, Y_init seg, Z_init seg), ori, (0, 0, 0), av), c')) \<and>
            acceleration_at seg (data_time (backend c) - t_bias seg) = (0, 0, 0)) \<and>
         (data_time (backend c) - t_bias seg = t_finial seg \<longrightarrow>
            (\<exists>ori av c'. built_next_desired_point tu c =
               Inr (((X_final seg, Y_final seg, Z_final seg), ori, (0, 0, 0), av), c')) \<and>
            acceleration_at seg (data_time (backend c) - t_bias seg) = (0, 0, 0))"
proof -
  have T: "t_finial seg \<noteq> 0" using assms(2) by simp
  note ret = built_next_desired_point_returns [OF assms(1) T assms(3), of tu]
  have start: "position_at seg 0 = (X_init seg, Y_init seg, Z_init seg)"
    "velocity_at seg 0 = (0, 0, 0)" "acceleration_at seg 0 = (0, 0, 0)"
    by (simp_all add: position_at_def velocity_at_def acceleration_at_def
        pos_law_start vel_law_start acc_law_start)
  have fin: "position_at seg (t_finial seg) = (X_final seg, Y_final seg, Z_final seg)"
    "velocity_at seg (t_finial seg) = (0, 0, 0)" "acceleration_at seg (t_finial seg) = (0, 0, 0)"
    using T by (simp_all add: position_at_def velocity_at_def acceleration_at_def
        pos_law_end vel_law_end acc_law_end)
  show ?thesis
  proof (intro conjI impI)
    assume "data_time (backend c) - t_bias seg = 0"
    then show "\<exists>ori av c'. built_next_desired_point tu c =
        Inr (((X_init seg, Y_init seg, Z_init seg), ori, (0, 0, 0), av), c')"
      and "acceleration_at seg (data_time (backend c) - t_bias seg) = (0, 0, 0)"
      using ret start by simp_all
  next
    assume "data_time (backend c) - t_bias seg = t_finial seg"
    then show "\<exists>ori av c'. built_next_desired_point tu c =
        Inr (((X_final seg, Y_final seg, Z_final seg), ori, (0, 0, 0), av), c')"
      and "acceleration_at seg (data_time (backend c) - t_bias seg) = (0, 0, 0)"
      using ret fin by simp_all
  qed
qed

text \<open>
  The segment from \<open>(0, 0, 0)\<close> to \<open>(1, 0, 0)\<close> over \<open>T = 2\<close> that began at time \<open>1\<close>, queried
  at simulation time \<open>1\<close> (its start) and at simulation time \<open>3\<close> (its end).
\<close>

theorem C1_boundary_conditions_witness:
  "(\<exists>ori av c'. built_next_desired_point example_utils
        (example_controller\<lparr>backend := example_sim\<lparr>data_time := 1\<rparr>,
                            traj := Some example_segment\<rparr>) =
      Inr (((0, 0, 0), ori, (0, 0, 0), av), c')) \<and>
   acceleration_at example_segment 0 = (0, 0, 0) \<and>
   (\<exists>ori av c'. built_next_desired_point example_utils
        (example_controller\<lparr>traj := Some example_segment\<rparr>) =
      Inr (((1, 0, 0), ori, (0, 0, 0), av), c')) \<and>
   acceleration_at example_segment 2 = (0, 0, 0)"
  using C1_boundary_conditions
      [of "example_controller\<lparr>backend := example_sim\<lparr>data_time := 1\<rparr>,
                               traj := Some example_segment\<rparr>" example_segment example_utils]
    C1_boundary_conditions
      [of "example_controller\<lparr>traj := Some example_segment\<rparr>" example_segment example_utils]
  by (simp add: example_controller_def example_segment_def example_sim_def)

text \<open>
  C7. \<open>nums2array\<close> raises a type error on every string; on a single number it returns
  the array of length \<open>dim\<close> filled with that number; an iterable is returned as it is,
  whatever its length and whatever \<open>dim\<close>.
\<close>

theorem C7_nums2array:
  "nums2array (Str s) d = Inl TypeError \<and>
   (0 \<le> d \<longrightarrow> nums2array (Num x) d = Inr (replicate (nat d) x)) \<and>
   nums2array (Num 5) 3 = Inr [5, 5, 5] \<and>
   nums2array (Iter xs) d = Inr xs \<and>
   nums2array (Iter [1, 2, 3]) 3 = Inr [1, 2, 3]"
proof (intro conjI impI)
  show "nums2array (Str s) d = Inl TypeError"
    by (simp add: nums2array_def)
  show "nums2array (Num x) d = Inr (replicate (nat d) x)" if "0 \<le> d"
    using that by (simp add: nums2array_def np_ones_def map_replicate)
  show "nums2array (Num 5) 3 = Inr [5, 5, 5]"
    by (simp add: nums2array_def np_ones_def map_replicate numeral_3_eq_3)
  show "nums2array (Iter xs) d = Inr xs" and "nums2array (Iter [1, 2, 3]) 3 = Inr [1, 2, 3]"
    by (simp_all add: nums2array_def)
qed

text \<open>A string, the number \<open>7\<close> broadcast to length \<open>2\<close>, and a two-element list with \<open>dim = 3\<close>.\<close>

theorem C7_nums2array_witness:
  "nums2array (Str ''x'') 3 = Inl TypeError \<and>
   nums2array (Num 7) 2 = Inr [7, 7] \<and>
   nums2array (Iter [1, 2]) 3 = Inr [1, 2]"
  using C7_nums2array [of "''x''" 3 7 "[1, 2]"] C7_nums2array [of "''x''" 2 7 "[1, 2]"]
  by (simp add: numeral_2_eq_2)

text \<open>
  C10. \<open>built_next_desired_point\<close> does not clamp the elapsed time: whatever
  \<open>t = time - t_bias\<close> is, the returned position, velocity and orientation outputs are the
  laws evaluated at that \<open>t\<close>. When the final position differs from the initial one,
  the position after the end of the segment (\<open>t > T\<close>) is not the final position and the
  velocity is not zero; before its start (\<open>t < 0\<close>) the position is not the initial one.
\<close>

theorem C10_no_time_clamp:
  assumes "traj c = Some seg" and "0 < t_finial seg"
    and "method_tag c = ''rotation'' \<or>
         (method_tag c = ''euler'' \<and> fin_orientation c \<noteq> None \<and> init_orientation c \<noteq> None)"
    and "t = data_time (backend c) - t_bias seg"
  shows "(\<exists>ori av c'. built_next_desired_point tu c =
            Inr ((position_at seg t, ori, velocity_at seg t, av), c') \<and>
            orientation_at tu c seg t = Inr (ori, av)) \<and>
         (t_finial seg < t \<and>
          (X_final seg, Y_final seg, Z_final seg) \<noteq> (X_init seg, Y_init seg, Z_init seg) \<longrightarrow>
            position_at seg t \<noteq> (X_final seg, Y_final seg, Z_final seg) \<and>
            velocity_at seg t \<noteq> (0, 0, 0)) \<and>
         (t < 0 \<and>
          (X_final seg, Y_final seg, Z_final seg) \<noteq> (X_init seg, Y_init seg, Z_init seg) \<longrightarrow>
            position_at seg t \<noteq> (X_init seg, Y_init seg, Z_init seg) \<and>
            velocity_at seg t \<noteq> (0, 0, 0))"
proof (intro conjI impI)
  have T: "t_finial seg \<noteq> 0" using assms(2) by simp
  obtain r where "orientation_at tu c seg t = Inr r"
    using orientation_at_total [OF assms(3)] by blast
  then obtain ori av where oa: "orientation_at tu c seg t = Inr (ori, av)"
    by (cases r) simp
  then have "built_next_desired_point tu c =
      Inr ((position_at seg t, ori, velocity_at seg t, av),
           c\<lparr>desired_vec_fin := desired_vec_fin c @
               [(position_at seg t, ori, velocity_at seg t, av)]\<rparr>)"
    using built_next_desired_point_Inr [OF assms(1) T, of tu ori av] assms(4) by simp
  with oa show "\<exists>ori av c'. built_next_desired_point tu c =
            Inr ((position_at seg t, ori, velocity_at seg t, av), c') \<and>
            orientation_at tu c seg t = Inr (ori, av)"
    by blast
next
  assume "t_finial seg < t \<and>
    (X_final seg, Y_final seg, Z_final seg) \<noteq> (X_init seg, Y_init seg, Z_init seg)"
  then show "position_at seg t \<noteq> (X_final seg, Y_final seg, Z_final seg)"
    and "velocity_at seg t \<noteq> (0, 0, 0)"
    using position_after_end [OF assms(2), of t] by blast+
next
  assume "t < 0 \<and>
    (X_final seg, Y_final seg, Z_final seg) \<noteq> (X_init seg, Y_init seg, Z_init seg)"
  then show "position_at seg t \<noteq> (X_init seg, Y_init seg, Z_init seg)"
    and "velocity_at seg t \<noteq> (0, 0, 0)"
    using position_before_start [OF assms(2), of t] by blast+
qed

text \<open>
  The example segment (\<open>T = 2\<close>, begun at time \<open>1\<close>) queried at time \<open>4\<close>, one second
  after its end, and the laws one second before its start.
\<close>

theorem C10_no_time_clamp_witness:
  "built_next_desired_point example_utils
     (example_controller\<lparr>backend := example_sim\<lparr>data_time := 4\<rparr>,
                         traj := Some example_segment\<rparr>) =
   Inr (((27 / 8, 0, 0), (19 / 8, 0, 0), (135 / 16, 0, 0), (135 / 16, 0, 0)),
        example_controller\<lparr>backend := example_sim\<lparr>data_time := 4\<rparr>,
                           traj := Some example_segment,
                           desired_vec_fin :=
                             [((27 / 8, 0, 0), (19 / 8, 0, 0), (135 / 16, 0, 0), (135 / 16, 0, 0))]\<rparr>) \<and>
   position_at example_segment 3 \<noteq> (1, 0, 0) \<and>
   velocity_at example_segment 3 \<noteq> (0, 0, 0) \<and>
   position_at example_segment (- 1) \<noteq> (0, 0, 0) \<and>
   velocity_at example_segment (- 1) \<noteq> (0, 0, 0)"
proof -
  let ?c = "\<lambda>time. example_controller\<lparr>backend := example_sim\<lparr>data_time := time\<rparr>,
                                      traj := Some example_segment\<rparr>"
  have h1: "traj (?c time) = Some example_segment" for time
    by simp
  have h2: "0 < t_finial example_segment"
    by (simp add: example_segment_def)
  have h3: "method_tag (?c time) = ''rotation'' \<or>
     (method_tag (?c time) = ''euler'' \<and> fin_orientation (?c time) \<noteq> None \<and>
      init_orientation (?c time) \<noteq> None)" for time
    by (simp add: example_controller_def)
  have h4: "3 = data_time (backend (?c 4)) - t_bias example_segment"
    by (simp add: example_segment_def)
  have h5: "- 1 = data_time (backend (?c 0)) - t_bias example_segment"
    by (simp add: example_segment_def)
  have ne: "(X_final example_segment, Y_final example_segment, Z_final example_segment) \<noteq>
      (X_init example_segment, Y_init example_segment, Z_init example_segment)"
    "(X_final example_segment, Y_final example_segment, Z_final example_segment) = (1, 0, 0)"
    "(X_init example_segment, Y_init example_segment, Z_init example_segment) = (0, 0, 0)"
    "t_finial example_segment < 3"
    by (simp_all add: example_segment_def)
  have a: "position_at example_segment 3 \<noteq> (1, 0, 0) \<and>
           velocity_at example_segment 3 \<noteq> (0, 0, 0)"
    using C10_no_time_clamp [OF h1 h2 h3 h4, of example_utils] ne by metis
  have b: "position_at example_segment (- 1) \<noteq> (0, 0, 0) \<and>
           velocity_at example_segment (- 1) \<noteq> (0, 0, 0)"
    using C10_no_time_clamp [OF h1 h2 h3 h5, of example_utils] ne by (metis neg_less_0_iff_less zero_less_one)
  have pv: "position_at example_segment 3 = (27 / 8, 0, 0)"
    "velocity_at example_segment 3 = (135 / 16, 0, 0)"
    by (simp_all add: position_at_def velocity_at_def pos_law_def vel_law_def example_segment_def)
  have ori: "orientation_at example_utils (?c 4) example_segment 3 =
      Inr ((19 / 8, 0, 0), (135 / 16, 0, 0))"
    by (simp add: orientation_at_rotation example_controller_def example_rotation_branch
        magnitude_traj_def magnitude_vel_traj_def)
  have c: "built_next_desired_point example_utils (?c 4) =
      Inr (((27 / 8, 0, 0), (19 / 8, 0, 0), (135 / 16, 0, 0), (135 / 16, 0, 0)),
        (?c 4)\<lparr>desired_vec_fin :=
           [((27 / 8, 0, 0), (19 / 8, 0, 0), (135 / 16, 0, 0), (135 / 16, 0, 0))]\<rparr>)"
    using built_next_desired_point_Inr [of "?c 4" example_segment example_utils
        "(19 / 8, 0, 0)" "(135 / 16, 0, 0)"] ori pv
    by (simp add: example_controller_def example_segment_def)
  from a b c show ?thesis by simp
qed


text \<open>
  C3. Under the \<open>rotation\<close> method, when the relative rotation vector has norm at least
  \<open>1e-6\<close> and \<open>Axis2Vector\<close> splits it into the magnitude \<open>m\<close> and the axis, the
  orientation output is \<open>(m * s(t) - m)\<close> times the axis and the angular velocity is
  \<open>m * s'(t)\<close> times the axis, where \<open>s\<close> is the blending polynomial of the specification
  and \<open>m * s'(t)\<close> is the derivative of \<open>m * s(t) - m\<close> in \<open>t\<close>. The blended magnitude is
  \<open>- m\<close> at \<open>t = 0\<close> and \<open>0\<close> at \<open>t = T\<close>.
\<close>

theorem C3_rotation_magnitude_blend:
  assumes "traj c = Some seg" and "0 < t_finial seg" and "method_tag c = ''rotation''"
    and "1 / 1000000 \<le>
           norm3 (Rotation_Matrix_To_Vector tu (initial_orientation seg) (final_orientation seg))"
    and "Axis2Vector tu (Rotation_Matrix_To_Vector tu (initial_orientation seg)
           (final_orientation seg)) = (m, axis)"
    and "t = data_time (backend c) - t_bias seg"
  shows "(\<exists>pos vel c'. built_next_desired_point tu c =
            Inr ((pos, scale3 (m * spec_s (t_finial seg) t - m) axis,
                  vel, scale3 (m * spec_s_deriv (t_finial seg) t) axis), c')) \<and>
         ((\<lambda>u. m * spec_s (t_finial seg) u - m) has_real_derivative
            m * spec_s_deriv (t_finial seg) t) (at t) \<and>
         m * spec_s (t_finial seg) 0 - m = - m \<and>
         m * spec_s (t_finial seg) (t_finial seg) - m = 0"
proof (intro conjI)
  have T: "t_finial seg \<noteq> 0" using assms(2) by simp
  have big: "\<not> norm3 (Rotation_Matrix_To_Vector tu (initial_orientation seg)
      (final_orientation seg)) < 1 / 1000000"
    using assms(4) by simp
  have "orientation_at tu c seg t =
      Inr (scale3 (m * spec_s (t_finial seg) t - m) axis,
           scale3 (m * spec_s_deriv (t_finial seg) t) axis)"
    using rotation_branch_large [OF big assms(5), of t] T
    by (simp add: orientation_at_rotation [OF assms(3)] magnitude_traj_spec
        magnitude_vel_traj_spec)
  then show "\<exists>pos vel c'. built_next_desired_point tu c =
            Inr ((pos, scale3 (m * spec_s (t_finial seg) t - m) axis,
                  vel, scale3 (m * spec_s_deriv (t_finial seg) t) axis), c')"
    using built_next_desired_point_Inr [OF assms(1) T, of tu] assms(6) by blast
  show "((\<lambda>u. m * spec_s (t_finial seg) u - m) has_real_derivative
            m * spec_s_deriv (t_finial seg) t) (at t)"
    by (auto intro!: derivative_eq_intros spec_s_has_derivative [OF T])
  show "m * spec_s (t_finial seg) 0 - m = - m"
    by (simp add: spec_s_def)
  show "m * spec_s (t_finial seg) (t_finial seg) - m = 0"
    using T by (simp add: spec_s_def)
qed

text \<open>
  The example segment at its midpoint (\<open>t = 1\<close> of \<open>T = 2\<close>): the rotation vector is
  \<open>(1, 0, 0)\<close>, so \<open>m = 1\<close>, \<open>s = 1/2\<close> and \<open>s' = 15/16\<close>.
\<close>

theorem C3_rotation_magnitude_blend_witness:
  "\<exists>pos vel c'. built_next_desired_point example_utils
      (example_controller\<lparr>backend := example_sim\<lparr>data_time := 2\<rparr>,
                          traj := Some example_segment\<rparr>) =
     Inr ((pos, (- (1 / 2), 0, 0), vel, (15 / 16, 0, 0)), c')"
proof -
  let ?c = "example_controller\<lparr>backend := example_sim\<lparr>data_time := 2\<rparr>,
                               traj := Some example_segment\<rparr>"
  have h1: "traj ?c = Some example_segment"
    by simp
  have h2: "0 < t_finial example_segment"
    by (simp add: example_segment_def)
  have h3: "method_tag ?c = ''rotation''"
    by (simp add: example_controller_def)
  have h4: "1 / 1000000 \<le> norm3 (Rotation_Matrix_To_Vector example_utils
      (initial_orientation example_segment) (final_orientation example_segment))"
    by (simp add: example_rotation_vector norm3_def)
  have h5: "Axis2Vector example_utils (Rotation_Matrix_To_Vector example_utils
      (initial_orientation example_segment) (final_orientation example_segment)) = (1, (1, 0, 0))"
    by (simp add: example_rotation_vector example_axis)
  have h6: "1 = data_time (backend ?c) - t_bias example_segment"
    by (simp add: example_segment_def)
  have v: "scale3 (1 * spec_s (t_finial example_segment) 1 - 1) (1, 0, 0) = (- (1 / 2), 0, 0)"
    "scale3 (1 * spec_s_deriv (t_finial example_segment) 1) (1, 0, 0) = (15 / 16, 0, 0)"
    by (simp_all add: scale3_def spec_s_def spec_s_deriv_def example_segment_def power_divide)
  from C3_rotation_magnitude_blend [OF h1 h2 h3 h4 h5 h6] show ?thesis
    unfolding v by blast
qed

text \<open>
  C4. Under the \<open>rotation\<close> method, when the relative rotation vector has norm below
  \<open>1e-6\<close>, \<open>built_next_desired_point\<close> returns the zero orientation and the zero angular
  velocity at every time, and \<open>Axis2Vector\<close> plays no part in the result: replacing it by
  any other function gives the same outcome.
\<close>

theorem C4_degenerate_rotation:
  assumes "traj c = Some seg" and "t_finial seg \<noteq> 0" and "method_tag c = ''rotation''"
    and "norm3 (Rotation_Matrix_To_Vector tu (initial_orientation seg) (final_orientation seg))
           < 1 / 1000000"
  shows "(\<exists>pos vel c'. built_next_desired_point tu c =
            Inr ((pos, (0, 0, 0), vel, (0, 0, 0)), c')) \<and>
         built_next_desired_point (tu\<lparr>Axis2Vector := a2v\<rparr>) c = built_next_desired_point tu c"
proof
  have small: "rotation_branch tu seg t = ((0, 0, 0), (0, 0, 0))" for t
    using rotation_branch_small [OF assms(4)] .
  have small': "rotation_branch (tu\<lparr>Axis2Vector := a2v\<rparr>) seg t = ((0, 0, 0), (0, 0, 0))" for t
    using rotation_branch_small [of "tu\<lparr>Axis2Vector := a2v\<rparr>" seg t] assms(4) by simp
  have oa: "orientation_at tu c seg t = Inr ((0, 0, 0), (0, 0, 0))" for t
    by (simp add: orientation_at_rotation [OF assms(3)] small)
  have oa': "orientation_at (tu\<lparr>Axis2Vector := a2v\<rparr>) c seg t = Inr ((0, 0, 0), (0, 0, 0))" for t
    by (simp add: orientation_at_rotation [OF assms(3)] small')
  show "\<exists>pos vel c'. built_next_desired_point tu c = Inr ((pos, (0, 0, 0), vel, (0, 0, 0)), c')"
    using built_next_desired_point_Inr [OF assms(1,2) oa] by blast
  show "built_next_desired_point (tu\<lparr>Axis2Vector := a2v\<rparr>) c = built_next_desired_point tu c"
    using built_next_desired_point_Inr [OF assms(1,2) oa]
      built_next_desired_point_Inr [OF assms(1,2) oa'] by simp
qed

text \<open>A segment whose final orientation matrix is its initial one.\<close>

theorem C4_degenerate_rotation_witness:
  "\<exists>pos vel c'. built_next_desired_point example_utils
      (example_controller\<lparr>traj := Some (example_segment\<lparr>final_orientation :=
          initial_orientation example_segment\<rparr>)\<rparr>) =
     Inr ((pos, (0, 0, 0), vel, (0, 0, 0)), c')"
proof -
  let ?seg = "example_segment\<lparr>final_orientation := initial_orientation example_segment\<rparr>"
  let ?c = "example_controller\<lparr>traj := Some ?seg\<rparr>"
  have h1: "traj ?c = Some ?seg"
    by simp
  have h2: "t_finial ?seg \<noteq> 0"
    by (simp add: example_segment_def)
  have h3: "method_tag ?c = ''rotation''"
    by (simp add: example_controller_def)
  have h4: "norm3 (Rotation_Matrix_To_Vector example_utils
      (initial_orientation ?seg) (final_orientation ?seg)) < 1 / 1000000"
    by (simp add: example_utils_def norm3_def)
  from C4_degenerate_rotation [OF h1 h2 h3 h4] show ?thesis
    by blast
qed


text \<open>
  C8. When the via-point keys exist and the end-effector site is known:
  with \<open>switch = 1\<close> and a non-empty history, \<open>built_min_jerk_traj\<close> takes the initial
  \<open>X\<close> and \<open>Y\<close> from the position of the last evaluated point (and \<open>Z\<close> from the backend),
  and under the \<open>euler\<close> method the initial orientation is the orientation of that point;
  with \<open>switch = 0\<close> the initial position is the backend's site position and, under
  \<open>euler\<close>, the initial orientation is \<open>mat2euler\<close> of the backend's site matrix.
\<close>

theorem C8_chained_initial_conditions:
  assumes "positions via_point (''p'' @ str_int (switch c)) = Some pos_fi"
    and "orientations via_point (''o'' @ str_int (switch c)) = Some ori_fi"
    and "site_name2id (backend c) (eef_name c) = Some sid"
    and "length (site_xmat (backend c) sid) = 9"
    and "site_xpos (backend c) sid = (px, py, pz)"
  shows "(switch c = 1 \<and> desired_vec_fin c \<noteq> [] \<and>
          last (desired_vec_fin c) = ((lx, ly, lz), lori, lvel, lav) \<longrightarrow>
            (\<exists>c' seg. built_min_jerk_traj tu t_fin t_b via_point c = Inr c' \<and>
               traj c' = Some seg \<and>
               X_init seg = lx \<and> Y_init seg = ly \<and> Z_init seg = pz \<and>
               (method_tag c = ''euler'' \<longrightarrow> init_orientation c' = Some lori))) \<and>
         (switch c = 0 \<longrightarrow>
            (\<exists>c' seg m. built_min_jerk_traj tu t_fin t_b via_point c = Inr c' \<and>
               traj c' = Some seg \<and>
               reshape 3 3 (site_xmat (backend c) sid) = Inr m \<and>
               X_init seg = px \<and> Y_init seg = py \<and> Z_init seg = pz \<and>
               initial_orientation seg = m \<and>
               (method_tag c = ''euler'' \<longrightarrow> init_orientation c' = Some (mat2euler tu m))))"
proof -
  obtain xf yf zf where pos_fi: "pos_fi = (xf, yf, zf)"
    by (cases pos_fi)
  obtain m where m: "reshape 3 3 (site_xmat (backend c) sid) = Inr m"
    using reshape_3_3 [OF assms(4)] by blast
  note key = assms(1) [unfolded pos_fi]
  show ?thesis
  proof (intro conjI impI)
    assume chained: "switch c = 1 \<and> desired_vec_fin c \<noteq> [] \<and>
      last (desired_vec_fin c) = ((lx, ly, lz), lori, lvel, lav)"
    then have "chained_pos_in c (site_xpos (backend c) sid) = Inr (lx, ly, pz)"
      using chained_pos_in_chained [of c lx ly lz px py pz] assms(5) by simp
    from built_min_jerk_traj_Inr [OF key assms(2,3) m this, of tu t_fin t_b] chained
    show "\<exists>c' seg. built_min_jerk_traj tu t_fin t_b via_point c = Inr c' \<and>
        traj c' = Some seg \<and> X_init seg = lx \<and> Y_init seg = ly \<and> Z_init seg = pz \<and>
        (method_tag c = ''euler'' \<longrightarrow> init_orientation c' = Some lori)"
      by simp
  next
    assume fresh: "switch c = 0"
    then have "chained_pos_in c (site_xpos (backend c) sid) = Inr (px, py, pz)"
      using chained_pos_in_fresh [of c] assms(5) by simp
    from built_min_jerk_traj_Inr [OF key assms(2,3) m this, of tu t_fin t_b] fresh m
    show "\<exists>c' seg m. built_min_jerk_traj tu t_fin t_b via_point c = Inr c' \<and>
        traj c' = Some seg \<and> reshape 3 3 (site_xmat (backend c) sid) = Inr m \<and>
        X_init seg = px \<and> Y_init seg = py \<and> Z_init seg = pz \<and>
        initial_orientation seg = m \<and>
        (method_tag c = ''euler'' \<longrightarrow> init_orientation c' = Some (mat2euler tu m))"
      by simp
  qed
qed


text \<open>
  The example controller under \<open>euler\<close> with the history \<open>[example_point]\<close>: chained
  (\<open>switch = 1\<close>) and not chained (\<open>switch = 0\<close>). The backend's site is at \<open>(1, 2, 3)\<close>,
  the last point at \<open>(7, 8, 9)\<close>.
\<close>

theorem C8_chained_initial_conditions_witness:
  "(\<exists>c' seg. built_min_jerk_traj example_utils 2 1 example_via
        (example_controller\<lparr>switch := 1, method_tag := ''euler'',
                            desired_vec_fin := [example_point]\<rparr>) = Inr c' \<and>
      traj c' = Some seg \<and> X_init seg = 7 \<and> Y_init seg = 8 \<and> Z_init seg = 3 \<and>
      init_orientation c' = Some (1 / 2, 1 / 3, 1 / 4)) \<and>
   (\<exists>c' seg. built_min_jerk_traj example_utils 2 1 example_via
        (example_controller\<lparr>switch := 0, method_tag := ''euler'',
                            desired_vec_fin := [example_point]\<rparr>) = Inr c' \<and>
      traj c' = Some seg \<and> X_init seg = 1 \<and> Y_init seg = 2 \<and> Z_init seg = 3 \<and>
      init_orientation c' = Some (0, 0, 0))"
proof -
  let ?c = "\<lambda>sw. example_controller\<lparr>switch := sw, method_tag := ''euler'',
                                    desired_vec_fin := [example_point]\<rparr>"
  have p1: "positions example_via (''p'' @ str_int (switch (?c 1))) = Some (1, 1, 0)"
    and o1: "orientations example_via (''o'' @ str_int (switch (?c 1))) =
      Some [[0, 1, 0], [1, 0, 0], [0, 0, - 1]]"
    by (simp_all add: example_via_def str_int_1)
  have p0: "positions example_via (''p'' @ str_int (switch (?c 0))) = Some (1, 0, 0)"
    and o0: "orientations example_via (''o'' @ str_int (switch (?c 0))) =
      Some [[99 / 100, 1 / 10, 1 / 2], [- (1 / 10), 99 / 100, 3 / 2], [0, 5 / 2, 1]]"
    by (simp_all add: example_via_def str_int_0)
  have chained: "switch (?c 1) = 1 \<and> desired_vec_fin (?c 1) \<noteq> [] \<and>
      last (desired_vec_fin (?c 1)) = ((7, 8, 9), (1 / 2, 1 / 3, 1 / 4), (0, 0, 0), (0, 0, 0))"
    by (simp add: example_point_def)
  have euler: "method_tag (?c sw) = ''euler''" for sw
    by simp
  have fresh: "switch (?c 0) = 0"
    by simp
  have me: "mat2euler example_utils m = (0, 0, 0)" for m
    by (simp add: example_utils_def)
  from C8_chained_initial_conditions [OF p1 o1 example_site, of 7 8 9 _ _ _ example_utils 2 1]
    chained euler
  have a: "\<exists>c' seg. built_min_jerk_traj example_utils 2 1 example_via (?c 1) = Inr c' \<and>
      traj c' = Some seg \<and> X_init seg = 7 \<and> Y_init seg = 8 \<and> Z_init seg = 3 \<and>
      init_orientation c' = Some (1 / 2, 1 / 3, 1 / 4)"
    by blast
  from C8_chained_initial_conditions [OF p0 o0 example_site, of 7 8 9 _ _ _ example_utils 2 1]
    fresh euler
  have b: "\<exists>c' seg. built_min_jerk_traj example_utils 2 1 example_via (?c 0) = Inr c' \<and>
      traj c' = Some seg \<and> X_init seg = 1 \<and> Y_init seg = 2 \<and> Z_init seg = 3 \<and>
      init_orientation c' = Some (0, 0, 0)"
    unfolding me by blast
  from a b show ?thesis by blast
qed

text \<open>
  C9. \<open>built_min_jerk_traj\<close> stores as final orientation the via-point's matrix rounded
  entry by entry: every stored entry is an integer within \<open>1/2\<close> of the supplied one. A
  matrix with a non-integer entry is therefore not stored as supplied; a matrix of
  integers is.
\<close>

theorem C9_final_orientation_rounded:
  assumes "positions via_point (''p'' @ str_int (switch c)) = Some pos_fi"
    and "orientations via_point (''o'' @ str_int (switch c)) = Some ori_fi"
    and "site_name2id (backend c) (eef_name c) = Some sid"
    and "length (site_xmat (backend c) sid) = 9"
    and "switch c = 1 \<longrightarrow> desired_vec_fin c \<noteq> []"
  shows "\<exists>c' seg. built_min_jerk_traj tu t_fin t_b via_point c = Inr c' \<and>
           traj c' = Some seg \<and>
           final_orientation seg = map (map np_round) ori_fi \<and>
           list_all2 (list_all2 (\<lambda>r x. r \<in> \<int> \<and> \<bar>r - x\<bar> \<le> 1 / 2))
             (final_orientation seg) ori_fi \<and>
           ((\<exists>row \<in> set ori_fi. \<exists>x \<in> set row. x \<notin> \<int>) \<longrightarrow> final_orientation seg \<noteq> ori_fi) \<and>
           ((\<forall>row \<in> set ori_fi. \<forall>x \<in> set row. x \<in> \<int>) \<longrightarrow> final_orientation seg = ori_fi)"
proof -
  obtain xf yf zf where pos_fi: "pos_fi = (xf, yf, zf)"
    by (cases pos_fi)
  obtain m where m: "reshape 3 3 (site_xmat (backend c) sid) = Inr m"
    using reshape_3_3 [OF assms(4)] by blast
  obtain px py pz where p: "site_xpos (backend c) sid = (px, py, pz)"
    by (cases "site_xpos (backend c) sid")
  obtain xi yi zi where
    pos_in: "chained_pos_in c (site_xpos (backend c) sid) = Inr (xi, yi, zi)"
  proof (cases "switch c = 1")
    case True
    obtain lx ly lz where "fst (last (desired_vec_fin c)) = (lx, ly, lz)"
      by (cases "fst (last (desired_vec_fin c))")
    with True assms(5) that show ?thesis
      using chained_pos_in_chained [of c lx ly lz px py pz] p by simp
  next
    case False
    with that show ?thesis
      using chained_pos_in_fresh [of c] p by simp
  qed
  have near: "list_all2 (list_all2 (\<lambda>r x. r \<in> \<int> \<and> \<bar>r - x\<bar> \<le> 1 / 2))
      (map (map np_round) ori_fi) ori_fi"
    using np_round_nearest by (simp add: list_all2_map_self np_round_int)
  have neq: "map (map np_round) ori_fi \<noteq> ori_fi"
    if "\<exists>row \<in> set ori_fi. \<exists>x \<in> set row. x \<notin> \<int>"
    using that round_matrix_eq_iff [of ori_fi] by blast
  have eq: "map (map np_round) ori_fi = ori_fi"
    if "\<forall>row \<in> set ori_fi. \<forall>x \<in> set row. x \<in> \<int>"
    using that round_matrix_eq_iff [of ori_fi] by blast
  from built_min_jerk_traj_Inr [OF assms(1) [unfolded pos_fi] assms(2,3) m pos_in, of tu t_fin t_b]
    near neq eq
  show ?thesis by simp
qed

text \<open>
  The via-point \<open>o0\<close>, a slightly rotated frame with some half-way entries, is stored
  rounded (ties go to the even neighbour); the via-point \<open>o1\<close>, a signed permutation
  matrix, is stored as it is.
\<close>

theorem C9_final_orientation_rounded_witness:
  "(\<exists>c' seg. built_min_jerk_traj example_utils 2 1 example_via
        (example_controller\<lparr>switch := 0, method_tag := ''rotation'',
                            desired_vec_fin := []\<rparr>) = Inr c' \<and>
      traj c' = Some seg \<and>
      final_orientation seg = [[1, 0, 0], [0, 1, 2], [0, 2, 1]] \<and>
      final_orientation seg \<noteq>
        [[99 / 100, 1 / 10, 1 / 2], [- (1 / 10), 99 / 100, 3 / 2], [0, 5 / 2, 1]]) \<and>
   (\<exists>c' seg. built_min_jerk_traj example_utils 2 1 example_via
        (example_controller\<lparr>switch := 1, method_tag := ''rotation'',
                            desired_vec_fin := [example_point]\<rparr>) = Inr c' \<and>
      traj c' = Some seg \<and>
      final_orientation seg = [[0, 1, 0], [1, 0, 0], [0, 0, - 1]])"
proof -
  let ?c0 = "example_controller\<lparr>switch := 0, method_tag := ''rotation'', desired_vec_fin := []\<rparr>"
  let ?c1 = "example_controller\<lparr>switch := 1, method_tag := ''rotation'',
                                desired_vec_fin := [example_point]\<rparr>"
  let ?o0 = "[[99 / 100, 1 / 10, 1 / 2], [- (1 / 10), 99 / 100, 3 / 2], [0, 5 / 2, 1 :: real]]"
  let ?o1 = "[[0, 1, 0], [1, 0, 0], [0, 0, - 1 :: real]]"
  have p1: "positions example_via (''p'' @ str_int (switch ?c1)) = Some (1, 1, 0)"
    and o1: "orientations example_via (''o'' @ str_int (switch ?c1)) = Some ?o1"
    by (simp_all add: example_via_def str_int_1)
  have p0: "positions example_via (''p'' @ str_int (switch ?c0)) = Some (1, 0, 0)"
    and o0: "orientations example_via (''o'' @ str_int (switch ?c0)) = Some ?o0"
    by (simp_all add: example_via_def str_int_0)
  have h0: "switch ?c0 = 1 \<longrightarrow> desired_vec_fin ?c0 \<noteq> []"
    and h1: "switch ?c1 = 1 \<longrightarrow> desired_vec_fin ?c1 \<noteq> []"
    by simp_all
  have r0: "map (map np_round) ?o0 = [[1, 0, 0], [0, 1, 2], [0, 2, 1]]"
    and r1: "map (map np_round) ?o1 = ?o1"
    by (simp_all add: np_round_examples)
  have ne: "[[1, 0, 0], [0, 1, 2], [0, 2, 1]] \<noteq> ?o0"
    by simp
  from C9_final_orientation_rounded [OF p0 o0 example_site(1,2) h0, of example_utils 2 1]
  have a: "\<exists>c' seg. built_min_jerk_traj example_utils 2 1 example_via ?c0 = Inr c' \<and>
      traj c' = Some seg \<and> final_orientation seg = [[1, 0, 0], [0, 1, 2], [0, 2, 1]] \<and>
      final_orientation seg \<noteq> ?o0"
    unfolding r0 using ne by metis
  from C9_final_orientation_rounded [OF p1 o1 example_site(1,2) h1, of example_utils 2 1]
  have b: "\<exists>c' seg. built_min_jerk_traj example_utils 2 1 example_via ?c1 = Inr c' \<and>
      traj c' = Some seg \<and> final_orientation seg = ?o1"
    unfolding r1 by metis
  from a b show ?thesis by blast
qed


text \<open>
  C5. With the flag \<open>new_update\<close> false and \<open>force\<close> false, \<open>update\<close> returns the controller
  as it is, whatever the backend's \<open>forward\<close> would do: the backend is not stepped and no
  cached field, nor the flag, changes. When \<open>update\<close> recomputes (flag set or \<open>force\<close>) and
  returns, the flag is false afterwards and the backend has been stepped once; on a
  well-formed backend it does return.
\<close>

theorem C5_update_cache:
  "(\<not> new_update c \<and> \<not> force \<longrightarrow> update forward force c = Inr c) \<and>
   (new_update c \<or> force \<longrightarrow>
      (\<forall>c'. update forward force c = Inr c' \<longrightarrow>
         \<not> new_update c' \<and> backend c' = forward (backend c)) \<and>
      (backend_ok (forward (backend c)) c \<longrightarrow> (\<exists>c'. update forward force c = Inr c')))"
proof (intro conjI impI allI)
  assume "\<not> new_update c \<and> \<not> force"
  then show "update forward force c = Inr c"
    using update_skips [of c forward] by simp
next
  fix c'
  assume "new_update c \<or> force" and "update forward force c = Inr c'"
  then show "\<not> new_update c'" and "backend c' = forward (backend c)"
    using update_clears_flag by blast+
next
  assume "new_update c \<or> force" and "backend_ok (forward (backend c)) c"
  then show "\<exists>c'. update forward force c = Inr c'"
    by (rule update_returns)
qed


text \<open>
  The example controller starts with the flag set: the first update refreshes the cache
  and clears the flag, a second one without \<open>force\<close> changes nothing, and one with \<open>force\<close>
  recomputes and leaves the flag cleared.
\<close>

theorem C5_update_cache_witness:
  "update example_forward False example_controller = Inr example_updated \<and>
   new_update example_controller \<and> \<not> new_update example_updated \<and>
   ee_pos example_updated = Some (4, 5, 6) \<and>
   update example_forward False example_updated = Inr example_updated \<and>
   (\<exists>c'. update example_forward True example_updated = Inr c' \<and> \<not> new_update c')"
proof -
  have flags: "new_update example_controller" "\<not> new_update example_updated"
    "ee_pos example_updated = Some (4, 5, 6)"
    by (simp_all add: example_controller_def example_updated_def)
  have a: "\<not> new_update example_updated \<and>
      backend example_updated = example_forward (backend example_controller)"
    using C5_update_cache [of example_controller False example_forward] flags(1) example_update
    by blast
  have b: "update example_forward False example_updated = Inr example_updated"
    using C5_update_cache [of example_updated False example_forward] flags(2) by blast
  have c: "\<exists>c'. update example_forward True example_updated = Inr c' \<and> \<not> new_update c'"
    using C5_update_cache [of example_updated True example_forward] example_backend_ok(2)
    by blast
  from a b c flags example_update show ?thesis by blast
qed


text \<open>
  C2, as amended. For input bounds with \<open>input_min < input_max\<close> in every entry (and
  output bounds of the same length), on the first call and on every later one:
  \<open>scale_action\<close> maps \<open>input_min\<close> to the entry-wise smaller of \<open>output_min\<close> and
  \<open>output_max\<close>, \<open>input_max\<close> to the larger, and the input midpoint to the output
  midpoint; it is monotonic; and its result on any action is the affine map applied to
  the action clamped to \<open>[input_min, input_max]\<close>. When \<open>output_min \<le> output_max\<close> the
  smaller and the larger bound are \<open>output_min\<close> and \<open>output_max\<close>.
\<close>

theorem C2_scale_action:
  assumes "action_scale c = None"
    and "list_all2 (<) (input_min c) (input_max c)"
    and "length (output_min c) = length (input_min c)"
    and "length (output_max c) = length (input_min c)"
  shows "\<exists>c1. cache_action_scale c = Inr c1 \<and>
     (\<forall>s \<in> {c, c1}.
        scale_action s (input_min c) = Inr (map2 min (output_min c) (output_max c), c1) \<and>
        scale_action s (input_max c) = Inr (map2 max (output_min c) (output_max c), c1) \<and>
        scale_action s (map2 (\<lambda>l h. (l + h) / 2) (input_min c) (input_max c)) =
          Inr (map2 (\<lambda>l h. (l + h) / 2) (output_min c) (output_max c), c1) \<and>
        (\<forall>a b. length a = length (input_min c) \<and> list_all2 (\<le>) a b \<longrightarrow>
           (\<exists>ya yb. scale_action s a = Inr (ya, c1) \<and> scale_action s b = Inr (yb, c1) \<and>
              list_all2 (\<le>) ya yb)) \<and>
        (\<forall>a. length a = length (input_min c) \<longrightarrow>
           (\<exists>clipped. np_clip a (input_min c) (input_max c) = Inr clipped \<and>
              list_all2 (\<le>) (input_min c) clipped \<and> list_all2 (\<le>) clipped (input_max c) \<and>
              scale_action s a = scale_action s clipped \<and>
              scale_action s a =
                Inr (map (\<lambda>i. affine1 (input_min c ! i) (input_max c ! i) (output_min c ! i)
                                (output_max c ! i) (clipped ! i))
                       [0..<length (input_min c)], c1)))) \<and>
     (list_all2 (\<le>) (output_min c) (output_max c) \<longrightarrow>
        map2 min (output_min c) (output_max c) = output_min c \<and>
        map2 max (output_min c) (output_max c) = output_max c)"
proof -
  let ?n = "length (input_min c)"
  let ?lo = "\<lambda>i. input_min c ! i" and ?hi = "\<lambda>i. input_max c ! i"
  let ?olo = "\<lambda>i. output_min c ! i" and ?ohi = "\<lambda>i. output_max c ! i"
  let ?f = "\<lambda>a. map (\<lambda>i. affine1 (?lo i) (?hi i) (?olo i) (?ohi i)
                       (clamp1 (?lo i) (?hi i) (a ! i))) [0..<?n]"
  have len: "length (input_max c) = ?n"
    using assms(2) by (simp add: list_all2_lengthD)
  have lt: "?lo i < ?hi i" if "i < ?n" for i
    using assms(2) that by (auto simp: list_all2_conv_all_nth)
  obtain c1 where c1: "cache_action_scale c = Inr c1"
    using scale_action_value [OF assms refl] by blast
  have val: "scale_action c a = Inr (?f a, c1)" and same: "scale_action c1 a = scale_action c a"
    if "length a = ?n" for a
    using scale_action_value [OF assms that] c1 by auto
  have at_min: "?f (input_min c) = map2 min (output_min c) (output_max c)"
    unfolding map2_nth [OF assms(3,4)]
    using lt by (auto simp: clamp1_def affine1_lo)
  have at_max: "?f (input_max c) = map2 max (output_min c) (output_max c)"
    unfolding map2_nth [OF assms(3,4)]
    using lt by (auto simp: clamp1_def affine1_hi)
  have mid_len: "length (map2 (\<lambda>l h. (l + h) / 2) (input_min c) (input_max c)) = ?n"
    using len by simp
  have at_mid: "?f (map2 (\<lambda>l h. (l + h) / 2) (input_min c) (input_max c)) =
      map2 (\<lambda>l h. (l + h) / 2) (output_min c) (output_max c)"
    unfolding map2_nth [OF assms(3,4)]
    using lt len by (auto simp: scale1_mid simp del: divide_eq_eq_numeral1)
  have mono: "list_all2 (\<le>) (?f a) (?f b)" if "length a = ?n" "list_all2 (\<le>) a b" for a b
    using that by (auto simp: list_all2_conv_all_nth intro!: affine1_mono clamp1_mono)
  have clip: "np_clip a (input_min c) (input_max c) =
      Inr (map (\<lambda>i. clamp1 (?lo i) (?hi i) (a ! i)) [0..<?n])" if "length a = ?n" for a
    using np_clip_nth [OF that refl len] .
  have clip_range: "list_all2 (\<le>) (input_min c) (map (\<lambda>i. clamp1 (?lo i) (?hi i) (a ! i)) [0..<?n])"
    "list_all2 (\<le>) (map (\<lambda>i. clamp1 (?lo i) (?hi i) (a ! i)) [0..<?n]) (input_max c)" for a
    using lt len by (auto simp: list_all2_conv_all_nth clamp1_def dest: less_imp_le)
  have clip_idem: "?f (map (\<lambda>i. clamp1 (?lo i) (?hi i) (a ! i)) [0..<?n]) = ?f a" for a
    by (auto simp: clamp1_idem)
  have clip_fix: "?f a = map (\<lambda>i. affine1 (?lo i) (?hi i) (?olo i) (?ohi i)
      (map (\<lambda>i. clamp1 (?lo i) (?hi i) (a ! i)) [0..<?n] ! i)) [0..<?n]" for a
    by auto
  have val': "scale_action s a = Inr (?f a, c1)" if "s \<in> {c, c1}" "length a = ?n" for s a
  proof -
    from that(1) consider "s = c" | "s = c1" by blast
    then show ?thesis
      using val [OF that(2)] same [OF that(2)] by cases simp_all
  qed
  have Q: "map2 min (output_min c) (output_max c) = output_min c \<and>
        map2 max (output_min c) (output_max c) = output_max c"
    if "list_all2 (\<le>) (output_min c) (output_max c)"
    using that by (auto simp: list_all2_conv_all_nth intro!: nth_equalityI)
  show ?thesis
  proof (intro exI [of _ c1] conjI ballI impI allI)
    show "cache_action_scale c = Inr c1" by (fact c1)
  next
    fix s assume s: "s \<in> {c, c1}"
    show "scale_action s (input_min c) = Inr (map2 min (output_min c) (output_max c), c1)"
      unfolding val' [OF s refl] at_min ..
    show "scale_action s (input_max c) = Inr (map2 max (output_min c) (output_max c), c1)"
      unfolding val' [OF s len] at_max ..
    show "scale_action s (map2 (\<lambda>l h. (l + h) / 2) (input_min c) (input_max c)) =
        Inr (map2 (\<lambda>l h. (l + h) / 2) (output_min c) (output_max c), c1)"
      unfolding val' [OF s mid_len] at_mid ..
  next
    fix s and a b :: vec
    assume s: "s \<in> {c, c1}" and ab: "length a = ?n \<and> list_all2 (\<le>) a b"
    from ab have la: "length a = ?n" and le: "list_all2 (\<le>) a b"
      by simp_all
    from la le have lb: "length b = ?n"
      by (simp add: list_all2_lengthD [symmetric])
    show "\<exists>ya yb. scale_action s a = Inr (ya, c1) \<and> scale_action s b = Inr (yb, c1) \<and>
        list_all2 (\<le>) ya yb"
    proof (intro exI conjI)
      show "scale_action s a = Inr (?f a, c1)" by (rule val' [OF s la])
      show "scale_action s b = Inr (?f b, c1)" by (rule val' [OF s lb])
      show "list_all2 (\<le>) (?f a) (?f b)" by (rule mono [OF la le])
    qed
  next
    fix s and a :: vec
    assume s: "s \<in> {c, c1}" and a: "length a = ?n"
    let ?cl = "map (\<lambda>i. clamp1 (?lo i) (?hi i) (a ! i)) [0..<?n]"
    have lcl: "length ?cl = ?n" by simp
    show "\<exists>clipped. np_clip a (input_min c) (input_max c) = Inr clipped \<and>
        list_all2 (\<le>) (input_min c) clipped \<and> list_all2 (\<le>) clipped (input_max c) \<and>
        scale_action s a = scale_action s clipped \<and>
        scale_action s a =
          Inr (map (\<lambda>i. affine1 (?lo i) (?hi i) (?olo i) (?ohi i) (clipped ! i)) [0..<?n], c1)"
    proof (intro exI [of _ ?cl] conjI)
      show "np_clip a (input_min c) (input_max c) = Inr ?cl" by (rule clip [OF a])
      show "list_all2 (\<le>) (input_min c) ?cl" by (rule clip_range(1))
      show "list_all2 (\<le>) ?cl (input_max c)" by (rule clip_range(2))
      show "scale_action s a = scale_action s ?cl"
        unfolding val' [OF s a] val' [OF s lcl] clip_idem [of a] ..
      show "scale_action s a =
          Inr (map (\<lambda>i. affine1 (?lo i) (?hi i) (?olo i) (?ohi i) (?cl ! i)) [0..<?n], c1)"
        unfolding val' [OF s a] clip_fix [of a, symmetric] ..
    qed
  next
    assume "list_all2 (\<le>) (output_min c) (output_max c)"
    then show "map2 min (output_min c) (output_max c) = output_min c"
      and "map2 max (output_min c) (output_max c) = output_max c"
      using Q by simp_all
  qed
qed


text \<open>The example controller: inputs in \<open>[-1, 1]\<close>, outputs in \<open>[-1/2, 1/2]\<close> and \<open>[0, 4]\<close>.\<close>

theorem C2_scale_action_witness:
  "scale_action example_controller [- 1, - 1] = Inr ([- (1 / 2), 0], example_scaled) \<and>
   scale_action example_controller [1, 1] = Inr ([1 / 2, 4], example_scaled) \<and>
   scale_action example_controller [0, 0] = Inr ([0, 2], example_scaled) \<and>
   scale_action example_scaled [- 1, - 1] = Inr ([- (1 / 2), 0], example_scaled)"
proof -
  obtain c1 where c1: "cache_action_scale example_controller = Inr c1"
    and all: "\<forall>s \<in> {example_controller, c1}.
        scale_action s (input_min example_controller) =
          Inr (map2 min (output_min example_controller) (output_max example_controller), c1) \<and>
        scale_action s (input_max example_controller) =
          Inr (map2 max (output_min example_controller) (output_max example_controller), c1) \<and>
        scale_action s (map2 (\<lambda>l h. (l + h) / 2) (input_min example_controller)
            (input_max example_controller)) =
          Inr (map2 (\<lambda>l h. (l + h) / 2) (output_min example_controller)
            (output_max example_controller), c1)"
    using C2_scale_action [OF example_ranges(1-4)] by blast
  have c1': "c1 = example_scaled"
    using c1 example_cache by simp
  have "scale_action example_controller (input_min example_controller) =
      Inr (map2 min (output_min example_controller) (output_max example_controller), c1)"
    "scale_action example_controller (input_max example_controller) =
      Inr (map2 max (output_min example_controller) (output_max example_controller), c1)"
    "scale_action example_controller (map2 (\<lambda>l h. (l + h) / 2) (input_min example_controller)
            (input_max example_controller)) =
          Inr (map2 (\<lambda>l h. (l + h) / 2) (output_min example_controller)
            (output_max example_controller), c1)"
    "scale_action c1 (input_min example_controller) =
      Inr (map2 min (output_min example_controller) (output_max example_controller), c1)"
    using all by simp_all
  then show ?thesis
    unfolding c1' example_ranges(6-9) by simp
qed

text \<open>
  The claim as stated fails when an output range is given in decreasing order: the scale
  is an absolute value, so \<open>input_min\<close> is sent to \<open>output_max\<close>, the smaller bound.
\<close>

theorem C2_scale_action_counterexample:
  "action_scale example_inverted = None \<and>
   list_all2 (<) (input_min example_inverted) (input_max example_inverted) \<and>
   output_min example_inverted = [1 / 2, 4] \<and>
   scale_action example_inverted (input_min example_inverted) =
     Inr ([- (1 / 2), 0],
          example_inverted\<lparr>action_scale := Some [1 / 2, 2],
                            action_output_transform := Some [0, 2],
                            action_input_transform := Some [0, 0]\<rparr>) \<and>
   \<not> (\<exists>c1. scale_action example_inverted (input_min example_inverted) =
           Inr (output_min example_inverted, c1))"
  by (simp add: scale_action_def cache_action_scale_def example_controller_def
      example_inverted_def np_defs)

text \<open>
  C6, as amended. \<open>clip_torques\<close> returns a torque vector within the actuator limits
  unchanged, so applying it twice is applying it once. The clamping step of
  \<open>scale_action\<close> returns an action within the input bounds unchanged. A call of
  \<open>scale_action\<close> that returns can be repeated on the same action in the state it leaves,
  with the same result and the same state; that state differs from the one before at
  most in the cached scale and offsets, and not at all when the cache was already set.
\<close>

theorem C6_in_range_behaviour:
  "(list_all2 (\<le>) (actuator_min c) torques \<and> list_all2 (\<le>) torques (actuator_max c) \<longrightarrow>
      clip_torques c torques = Inr torques \<and>
      bindE (clip_torques c torques) (clip_torques c) = clip_torques c torques) \<and>
   (list_all2 (\<le>) (input_min c) action \<and> list_all2 (\<le>) action (input_max c) \<longrightarrow>
      np_clip action (input_min c) (input_max c) = Inr action) \<and>
   (\<forall>y c'. scale_action c action = Inr (y, c') \<longrightarrow>
      scale_action c' action = Inr (y, c') \<and>
      c' = c\<lparr>action_scale := action_scale c',
              action_output_transform := action_output_transform c',
              action_input_transform := action_input_transform c'\<rparr> \<and>
      (action_scale c \<noteq> None \<longrightarrow> c' = c))"
proof (intro conjI impI allI)
  assume "list_all2 (\<le>) (actuator_min c) torques \<and> list_all2 (\<le>) torques (actuator_max c)"
  then have id: "clip_torques c torques = Inr torques"
    unfolding clip_torques_def by (intro np_clip_in_range) simp_all
  then show "clip_torques c torques = Inr torques"
    and "bindE (clip_torques c torques) (clip_torques c) = clip_torques c torques"
    by simp_all
next
  assume "list_all2 (\<le>) (input_min c) action \<and> list_all2 (\<le>) action (input_max c)"
  then show "np_clip action (input_min c) (input_max c) = Inr action"
    by (intro np_clip_in_range) simp_all
next
  fix y c'
  assume r: "scale_action c action = Inr (y, c')"
  then have cache: "cache_action_scale c = Inr c'"
    by (rule scale_action_state)
  show "scale_action c' action = Inr (y, c')"
    using scale_action_after_cache [OF cache, of action] r by simp
  show "c' = c\<lparr>action_scale := action_scale c',
               action_output_transform := action_output_transform c',
               action_input_transform := action_input_transform c'\<rparr>"
    by (rule cache_action_scale_frame(1) [OF cache])
  show "c' = c" if "action_scale c \<noteq> None"
    using cache_action_scale_frame(2) [OF cache that] .
qed

text \<open>Torques \<open>[3, -4]\<close> within \<open>[-10, 10]\<close> and the action \<open>[1/2, -1/2]\<close> within \<open>[-1, 1]\<close>.\<close>

theorem C6_in_range_behaviour_witness:
  "clip_torques example_controller [3, - 4] = Inr [3, - 4] \<and>
   np_clip [1 / 2, - (1 / 2)] (input_min example_controller) (input_max example_controller) =
     Inr [1 / 2, - (1 / 2)] \<and>
   scale_action example_controller [1 / 2, - (1 / 2)] = Inr ([1 / 4, 1], example_scaled) \<and>
   scale_action example_scaled [1 / 2, - (1 / 2)] = Inr ([1 / 4, 1], example_scaled)"
proof -
  have first: "scale_action example_controller [1 / 2, - (1 / 2)] = Inr ([1 / 4, 1], example_scaled)"
    using scale_action_after_cache [OF example_cache, of "[1 / 2, - (1 / 2)]"]
    by (simp add: example_scale_action)
  have tq: "list_all2 (\<le>) (actuator_min example_controller) [3, - 4] \<and>
      list_all2 (\<le>) [3, - 4] (actuator_max example_controller)"
    by (simp add: example_controller_def)
  have ac: "list_all2 (\<le>) (input_min example_controller) [1 / 2, - (1 / 2)] \<and>
      list_all2 (\<le>) [1 / 2, - (1 / 2)] (input_max example_controller)"
    by (simp add: example_controller_def)
  note inst = C6_in_range_behaviour [of example_controller "[3, - 4]" "[1 / 2, - (1 / 2)]"]
  from inst tq have a: "clip_torques example_controller [3, - 4] = Inr [3, - 4]"
    by blast
  from inst ac have b: "np_clip [1 / 2, - (1 / 2)] (input_min example_controller)
      (input_max example_controller) = Inr [1 / 2, - (1 / 2)]"
    by blast
  from inst first have c: "scale_action example_scaled [1 / 2, - (1 / 2)] =
      Inr ([1 / 4, 1], example_scaled)"
    by blast
  from a b first c show ?thesis by blast
qed

text \<open>
  \<open>scale_action\<close> applied to its own result is not \<open>scale_action\<close> applied once: the
  in-range action \<open>[1, 1]\<close> is sent to \<open>[1/2, 4]\<close>, and that to \<open>[1/4, 4]\<close>.
\<close>

theorem C6_scale_action_not_idempotent_counterexample:
  "list_all2 (\<le>) (input_min example_controller) [1, 1] \<and>
   list_all2 (\<le>) [1, 1] (input_max example_controller) \<and>
   scale_action example_controller [1, 1] = Inr ([1 / 2, 4], example_scaled) \<and>
   scale_action example_scaled [1 / 2, 4] = Inr ([1 / 4, 4], example_scaled) \<and>
   [1 / 4, 4] \<noteq> [1 / 2, 4 :: real]"
proof -
  have "scale_action example_controller [1, 1] = Inr ([1 / 2, 4], example_scaled)"
    using scale_action_after_cache [OF example_cache, of "[1, 1]"]
    by (simp add: example_scale_action)
  moreover have "scale_action example_scaled [1 / 2, 4] = Inr ([1 / 4, 4], example_scaled)"
    by (simp add: example_scale_action)
  ultimately show ?thesis
    by (simp add: example_controller_def)
qed


end
